theory Spec2Isabelle
  imports Complex_Main "HOL-Library.Word"
begin

section \<open>A relayer between a Substrate chain and a contract chain\<close>

text \<open>
  The substrate chain package of the relayer has two halves that share one map of
  multi-signature transfers. The listener (\<^verbatim>\<open>pollBlocks\<close>, \<^verbatim>\<open>processBlock\<close>,
  \<^verbatim>\<open>markVote\<close>, \<^verbatim>\<open>markExecution\<close>) follows the finalized blocks, keeps the map and sends
  a transfer message to the router for every \<^verbatim>\<open>UtilityBatch\<close> extrinsic. The writer
  (\<^verbatim>\<open>ResolveMessage\<close>, \<^verbatim>\<open>redeemTx\<close>, \<^verbatim>\<open>getRound\<close>, \<^verbatim>\<open>isFinish\<close>) waits for the relayer's
  round and submits or approves a multi-signature call. Both are embedded here as
  functions on explicit state: remote calls appear as inputs, panics and errors as
  values, loops as recursion over what they have seen so far.
\<close>

section \<open>Shared types of the substrate chain package\<close>

text \<open>
  Modelled from the spec: the declarations of \<^verbatim>\<open>MultiSignTx\<close>, \<^verbatim>\<open>MultiSigAsMulti\<close> and
  \<^verbatim>\<open>Relayer\<close> are in a file of the package that is not at hand; the fields are the ones
  the listener and the writer use, with the types of the spec's data model.

  \<^verbatim>\<open>MultiSignTx\<close> is the time point of an extrinsic: the block number (a signed
  64-bit integer) and the index of the extrinsic in the block (an unsigned 32-bit
  integer). It is the key of the listener's map \<^verbatim>\<open>msTxAsMulti\<close>.
\<close>

record MultiSignTx =
  BlockNumber :: "64 word"
  MultiSignTxId :: "32 word"

text \<open>
  Modelled from the spec: \<^verbatim>\<open>MultiSigAsMulti\<close> is the entry the listener keeps for one
  multi-signature transfer. \<^verbatim>\<open>Others\<close> holds one list of signatories (hex account ids)
  per observed vote; \<^verbatim>\<open>StoreCall\<close> is an opaque byte string.
\<close>

record MultiSigAsMulti =
  Executed :: bool
  Threshold :: "16 word"
  MaybeTimePoint :: "(32 word \<times> 32 word) option"
  DestAddress :: string
  DestAmount :: string
  Others :: "string list list"
  StoreCall :: string
  MaxWeight :: "64 word"
  OriginMsTx :: MultiSignTx

text \<open>
  Modelled from the spec: the relayer's identity. The key pair is kept as the address
  derived from its public key (\<^verbatim>\<open>types.NewAddressFromAccountID(w.relayer.kr.PublicKey)\<close>);
  the address type belongs to the RPC client library and stays a type parameter.
  \<^verbatim>\<open>currentRelayer\<close> is compared with \<^verbatim>\<open>round.Uint64()\<close> by the writer, so it is a
  \<^verbatim>\<open>uint64\<close>; \<^verbatim>\<open>totalRelayers\<close> is taken as one too.
\<close>

record 'addr Relayer =
  krAddress :: 'addr
  otherSignatories :: "string list"
  totalRelayers :: "64 word"
  multiSignThreshold :: "16 word"
  currentRelayer :: "64 word"

text \<open>
  Modelled from the spec: the decoded extrinsic the client library hands to the listener
  (\<^verbatim>\<open>models.ExtrinsicResponse\<close>), with the fields the package reads. \<^verbatim>\<open>Type\<close> is one
  of the four kinds the listener dispatches on, or anything else. The arguments of an
  \<^verbatim>\<open>as_multi\<close> call (\<^verbatim>\<open>e.MultiSigAsMulti\<close>) are the record \<open>AsMultiArgs\<close>.
\<close>

datatype ExtrinsicType = AsMultiNew | AsMultiApprove | AsMultiExecuted | UtilityBatch | OtherExtrinsic

record AsMultiArgs =
  argThreshold :: "16 word"
  argOtherSignatories :: "string list"
  argMaybeTimePoint :: "(32 word \<times> 32 word) option"
  argDestAddress :: string
  argDestAmount :: string
  argStoreCall :: string
  argMaxWeight :: "64 word"

record ExtrinsicResponse =
  Type :: ExtrinsicType
  FromAddress :: string
  Amount :: string
  Recipient :: string
  ExtrinsicIndex :: "64 word"
  AsMulti :: AsMultiArgs

text \<open>
  The outbound transfer the listener builds with \<^verbatim>\<open>msg.NewFungibleTransfer\<close>: the record
  keeps the arguments of that call (the nonce is a \<^verbatim>\<open>uint64\<close>, the amount a
  \<^verbatim>\<open>big.Int\<close>).
\<close>

record FungibleTransfer =
  tSource :: "8 word"
  tDestination :: "8 word"
  tDepositNonce :: "64 word"
  tAmount :: int
  tResourceId :: "8 word list"
  tRecipient :: string

text \<open>
  The inbound message the writer resolves: \<^verbatim>\<open>Payload[0]\<close> is the amount in big-endian
  bytes, \<^verbatim>\<open>Payload[1]\<close> the recipient's hex account id.
\<close>

record Message =
  DepositNonce :: "64 word"
  Payload :: "string list"

text \<open>
  The \<^verbatim>\<open>multisig.as_multi\<close> call the writer submits, wrapping
  \<^verbatim>\<open>balances.transfer_keep_alive(recipient, amount)\<close>.
\<close>

record AsMultiCall =
  callThreshold :: "16 word"
  callOtherSignatories :: "string list"
  callMaybeTimePoint :: "(32 word \<times> 32 word) option"
  callRecipient :: string
  callAmount :: "64 word"
  callMaxWeight :: "64 word"

text \<open>The listener's state: the fields \<^verbatim>\<open>processBlock\<close> reads and writes, and the
  messages handed to \<^verbatim>\<open>router.Send\<close> so far.\<close>

record listener =
  chainId :: "8 word"
  destId :: "8 word"
  resourceId :: "8 word list"
  currentTx :: MultiSignTx
  msTxAsMulti :: "MultiSignTx \<rightharpoonup> MultiSigAsMulti"
  routed :: "FungibleTransfer list"


section \<open>Functions of the Go library the package calls\<close>

subsection \<open>strconv.FormatInt and strconv.ParseInt, base 10, 64 bits\<close>

text \<open>\<^verbatim>\<open>FormatInt\<close> writes a minus sign for a negative number and then the decimal digits
  of the magnitude; \<open>digitChar\<close> is only applied to a digit below 10.\<close>

definition digitChar :: "nat \<Rightarrow> char" where
  "digitChar d = ''0123456789'' ! d"

fun decimal :: "nat \<Rightarrow> string" where
  "decimal n = (if n < 10 then [digitChar n] else decimal (n div 10) @ [digitChar (n mod 10)])"

declare decimal.simps [simp del]

definition FormatInt :: "int \<Rightarrow> string" where
  "FormatInt i = (if i < 0 then CHR ''-'' # decimal (nat (- i)) else decimal (nat i))"

datatype NumError = ErrSyntax | ErrRange

definition digitVal :: "char \<Rightarrow> nat option" where
  "digitVal c = (let v = (of_char c :: nat) in if 48 \<le> v \<and> v \<le> 57 then Some (v - 48) else None)"

definition maxUint64 :: nat where
  "maxUint64 = 2 ^ 64 - 1"

text \<open>
  The loop of \<^verbatim>\<open>ParseUint\<close>: a byte that is no digit is a syntax error; the value is
  clamped to \<^verbatim>\<open>maxVal\<close> with a range error as soon as the next digit would overflow
  (\<^verbatim>\<open>n >= cutoff\<close> with \<^verbatim>\<open>cutoff = maxUint64/10 + 1\<close>, or \<^verbatim>\<open>n*10 + d > maxVal\<close>).
\<close>

fun parseUintLoop :: "nat \<Rightarrow> string \<Rightarrow> nat \<times> NumError option" where
  "parseUintLoop n [] = (n, None)"
| "parseUintLoop n (c # s) =
     (case digitVal c of
        None \<Rightarrow> (0, Some ErrSyntax)
      | Some d \<Rightarrow>
          if n \<ge> maxUint64 div 10 + 1 then (maxUint64, Some ErrRange)
          else if n * 10 + d > maxUint64 then (maxUint64, Some ErrRange)
          else parseUintLoop (n * 10 + d) s)"

definition ParseUint :: "string \<Rightarrow> nat \<times> NumError option" where
  "ParseUint s = (if s = [] then (0, Some ErrSyntax) else parseUintLoop 0 s)"

text \<open>
  \<^verbatim>\<open>ParseInt(s, 10, 64)\<close>: an optional sign, then \<^verbatim>\<open>ParseUint\<close>; a syntax error
  returns 0, a value outside the signed range is clamped and returned with a range
  error.
\<close>

definition ParseInt :: "string \<Rightarrow> int \<times> NumError option" where
  "ParseInt s =
     (case s of
        [] \<Rightarrow> (0, Some ErrSyntax)
      | c # rest \<Rightarrow>
          (let neg = (c = CHR ''-'');
               s1 = (if c = CHR ''+'' then rest else if c = CHR ''-'' then rest else s);
               (un, err) = ParseUint s1
           in if err = Some ErrSyntax then (0, err)
              else if \<not> neg \<and> un \<ge> 2 ^ 63 then (2 ^ 63 - 1, Some ErrRange)
              else if neg \<and> un > 2 ^ 63 then (- (2 ^ 63), Some ErrRange)
              else (if neg then - int un else int un, None)))"

subsection \<open>float64 arithmetic\<close>

text \<open>
  A finite \<^verbatim>\<open>float64\<close> is a pair \<open>(m, e)\<close> standing for \<open>m * 2 ^ e\<close>. Every operation
  computes the exact result and rounds it to 53 significant bits, to nearest and ties to
  even, as IEEE 754 binary64 does. The exponent range is not modelled: the values of
  this package stay far inside it.
\<close>

type_synonym float64 = "int \<times> int"

text \<open>The real number a float stands for.\<close>

definition float64_value :: "float64 \<Rightarrow> real" where
  "float64_value x = of_int (fst x) * 2 powi (snd x)"

fun bitlen :: "nat \<Rightarrow> nat" where
  "bitlen n = (if n = 0 then 0 else Suc (bitlen (n div 2)))"

declare bitlen.simps [simp del]

definition roundShift :: "nat \<Rightarrow> nat \<Rightarrow> nat" where
  "roundShift a s =
     (let q = a div 2 ^ s; r = a mod 2 ^ s
      in if 2 * r > 2 ^ s then q + 1
         else if 2 * r = 2 ^ s \<and> odd q then q + 1
         else q)"

definition round53 :: "float64 \<Rightarrow> float64" where
  "round53 x =
     (let a = nat \<bar>fst x\<bar>; s = bitlen a - 53
      in (sgn (fst x) * int (roundShift a s), snd x + int s))"

definition float64_of_int :: "int \<Rightarrow> float64" where
  "float64_of_int i = round53 (i, 0)"

definition float64_mul :: "float64 \<Rightarrow> float64 \<Rightarrow> float64" where
  "float64_mul x y = round53 (fst x * fst y, snd x + snd y)"

definition float64_add :: "float64 \<Rightarrow> float64 \<Rightarrow> float64" where
  "float64_add x y =
     (let e = min (snd x) (snd y)
      in round53 (fst x * 2 ^ nat (snd x - e) + fst y * 2 ^ nat (snd y - e), e))"

text \<open>The integer part of a float, towards zero: the value of a conversion to an
  integer type that can hold it.\<close>

definition float64_trunc :: "float64 \<Rightarrow> int" where
  "float64_trunc x =
     (if snd x \<ge> 0 then fst x * 2 ^ nat (snd x)
      else sgn (fst x) * (\<bar>fst x\<bar> div 2 ^ nat (- snd x)))"


section \<open>The listener\<close>

subsection \<open>Fee variables\<close>

text \<open>
  \<^verbatim>\<open>FixedFee\<close> and \<^verbatim>\<open>FeeRate\<close> are package variables (\<^verbatim>\<open>var\<close>, not \<^verbatim>\<open>const\<close>) shared by
  the listener and the writer; the functions that read them take them as a record.
  \<open>packageFees\<close> holds the values the source gives them: \<^verbatim>\<open>DOT = 1e12\<close>,
  \<^verbatim>\<open>FixedFee = 0 * DOT\<close> and \<^verbatim>\<open>FeeRate = 0.001\<close>, the last as the nearest binary64 value
  \<open>4611686018427388 * 2 ^ -62\<close>.
\<close>

record FeeVars =
  FixedFee :: float64
  FeeRate :: float64

definition DOT :: float64 where
  "DOT = (1000000000000, 0)"

definition packageFees :: FeeVars where
  "packageFees = \<lparr>FixedFee = float64_mul (0, 0) DOT, FeeRate = (4611686018427388, - 62)\<rparr>"

text \<open>
  \<^verbatim>\<open>int64(FixedFee + float64(amount) * FeeRate)\<close>, the listener's fee on a signed
  amount. The conversion back to \<^verbatim>\<open>int64\<close> keeps the integer part; for a value outside
  the \<^verbatim>\<open>int64\<close> range Go leaves the result to the implementation, and the model wraps.
\<close>

definition feeFloat :: "FeeVars \<Rightarrow> int \<Rightarrow> float64" where
  "feeFloat fv amount = float64_add (FixedFee fv) (float64_mul (float64_of_int amount) (FeeRate fv))"

definition listenerFee :: "FeeVars \<Rightarrow> 64 word \<Rightarrow> 64 word" where
  "listenerFee fv amount = word_of_int (float64_trunc (feeFloat fv (sint amount)))"

subsection \<open>NewListener\<close>

text \<open>The listener \<^verbatim>\<open>NewListener\<close> builds: an empty map, the zero time point, and
  nothing sent to the router yet.\<close>

definition NewListener :: "8 word \<Rightarrow> 8 word \<Rightarrow> 8 word list \<Rightarrow> listener" where
  "NewListener chain dest resource =
     \<lparr>chainId = chain, destId = dest, resourceId = resource,
      currentTx = \<lparr>BlockNumber = 0, MultiSignTxId = 0\<rparr>,
      msTxAsMulti = Map.empty, routed = []\<rparr>"

subsection \<open>markExecution and markVote\<close>

text \<open>
  Both functions range over the whole map and rewrite, under its own key, every entry
  that is not executed and has the destination address and amount of \<open>msTx\<close>. No key
  is added or removed during the loop, so each entry is visited once and the order of
  the visit does not matter.
\<close>

definition inFlightMatch :: "MultiSigAsMulti \<Rightarrow> MultiSigAsMulti \<Rightarrow> bool" where
  "inFlightMatch ms msTx \<longleftrightarrow>
     \<not> Executed ms \<and> DestAddress ms = DestAddress msTx \<and> DestAmount ms = DestAmount msTx"

definition markExecution :: "MultiSigAsMulti \<Rightarrow> listener \<Rightarrow> listener" where
  "markExecution msTx l =
     l\<lparr>msTxAsMulti := (\<lambda>k. case msTxAsMulti l k of
          None \<Rightarrow> None
        | Some ms \<Rightarrow> if inFlightMatch ms msTx then Some (ms\<lparr>Executed := True\<rparr>) else Some ms)\<rparr>"

definition markVote :: "MultiSigAsMulti \<Rightarrow> ExtrinsicResponse \<Rightarrow> listener \<Rightarrow> listener" where
  "markVote msTx e l =
     l\<lparr>msTxAsMulti := (\<lambda>k. case msTxAsMulti l k of
          None \<Rightarrow> None
        | Some ms \<Rightarrow>
            if inFlightMatch ms msTx
            then Some (ms\<lparr>Others := Others ms @ [argOtherSignatories (AsMulti e)]\<rparr>)
            else Some ms)\<rparr>"

subsection \<open>submitMessage\<close>

text \<open>
  \<^verbatim>\<open>submitMessage(m, err)\<close> returns without sending when \<open>err\<close> is set; otherwise it
  stamps the source chain and calls \<^verbatim>\<open>router.Send\<close>, whose failure is only logged.
\<close>

definition submitMessage :: "FungibleTransfer \<Rightarrow> NumError option \<Rightarrow> listener \<Rightarrow> listener" where
  "submitMessage m err l =
     (case err of
        Some x \<Rightarrow> l
      | None \<Rightarrow> l\<lparr>routed := routed l @ [m\<lparr>tSource := chainId l\<rparr>]\<rparr>)"

subsection \<open>processBlock\<close>

text \<open>The zero value of \<^verbatim>\<open>MultiSigAsMulti\<close>, and the value with only the destination
  address and amount set that the listener passes to the two marking functions.\<close>

definition zeroMsTx :: MultiSigAsMulti where
  "zeroMsTx = \<lparr>Executed = False, Threshold = 0, MaybeTimePoint = None, DestAddress = [],
     DestAmount = [], Others = [], StoreCall = [], MaxWeight = 0,
     OriginMsTx = \<lparr>BlockNumber = 0, MultiSignTxId = 0\<rparr>\<rparr>"

definition destOnly :: "ExtrinsicResponse \<Rightarrow> MultiSigAsMulti" where
  "destOnly e = zeroMsTx\<lparr>DestAddress := argDestAddress (AsMulti e),
     DestAmount := argDestAmount (AsMulti e)\<rparr>"

text \<open>
  The deposit nonce: the decimal digits of the block number followed by those of the
  extrinsic index, parsed as a 64-bit integer; the parse error is discarded, so the
  clamped value (or 0) is used when the parse fails.
\<close>

definition depositNonce :: "int \<Rightarrow> int \<Rightarrow> int" where
  "depositNonce currentBlock extrinsicIndex =
     fst (ParseInt (FormatInt currentBlock @ FormatInt extrinsicIndex))"

text \<open>The current time point \<^verbatim>\<open>{Block, Index}\<close> the loop binds to \<^verbatim>\<open>l.currentTx\<close>:
  \<^verbatim>\<open>BlockNumber(currentBlock)\<close> and \<^verbatim>\<open>MultiSignTxId(e.ExtrinsicIndex)\<close>.\<close>

definition timePoint :: "64 word \<Rightarrow> ExtrinsicResponse \<Rightarrow> MultiSignTx" where
  "timePoint currentBlock e =
     \<lparr>BlockNumber = currentBlock, MultiSignTxId = ucast (ExtrinsicIndex e)\<rparr>"

text \<open>
  The body of the loop of \<^verbatim>\<open>processBlock\<close> for one extrinsic \<open>e\<close> of block
  \<open>currentBlock\<close>. The four \<^verbatim>\<open>if\<close> statements run in the source's order. The result
  is the error the body returns with, if any, and the listener after it.
\<close>

definition processExtrinsic ::
  "FeeVars \<Rightarrow> 64 word \<Rightarrow> ExtrinsicResponse \<Rightarrow> listener \<Rightarrow> NumError option \<times> listener" where
  "processExtrinsic fv currentBlock e l0 =
     (let l1 = l0\<lparr>currentTx := timePoint currentBlock e\<rparr>;
          l2 = (if Type e = AsMultiNew
                then l1\<lparr>msTxAsMulti := (msTxAsMulti l1)(currentTx l1 \<mapsto>
                       \<lparr>Executed = False,
                        Threshold = argThreshold (AsMulti e),
                        MaybeTimePoint = argMaybeTimePoint (AsMulti e),
                        DestAddress = argDestAddress (AsMulti e),
                        DestAmount = argDestAmount (AsMulti e),
                        Others = [] @ [argOtherSignatories (AsMulti e)],
                        StoreCall = argStoreCall (AsMulti e),
                        MaxWeight = argMaxWeight (AsMulti e),
                        OriginMsTx = currentTx l1\<rparr>)\<rparr>
                else l1);
          l3 = (if Type e = AsMultiApprove then markVote (destOnly e) e l2 else l2);
          l4 = (if Type e = AsMultiExecuted
                then markExecution (destOnly e) (markVote (destOnly e) e (l3\<lparr>currentTx := timePoint currentBlock e\<rparr>))
                else l3)
      in if Type e = UtilityBatch
         then (case ParseInt (Amount e) of
                 (a, Some err) \<Rightarrow> (Some err, l4)
               | (a, None) \<Rightarrow>
                   (let amount = (word_of_int a :: 64 word);
                        fee = listenerFee fv amount;
                        actualAmount = amount - fee;
                        recipient = Recipient e;
                        nonce = depositNonce (sint currentBlock) (sint (ExtrinsicIndex e));
                        m = \<lparr>tSource = chainId l4, tDestination = destId l4,
                             tDepositNonce = word_of_int nonce, tAmount = sint actualAmount,
                             tResourceId = resourceId l4, tRecipient = recipient\<rparr>
                    in (None, submitMessage m None l4)))
         else (None, l4))"

text \<open>The loop over the extrinsics of the block: it returns at the first error.\<close>

fun processExtrinsics ::
  "FeeVars \<Rightarrow> 64 word \<Rightarrow> ExtrinsicResponse list \<Rightarrow> listener \<Rightarrow> NumError option \<times> listener" where
  "processExtrinsics fv currentBlock [] l = (None, l)"
| "processExtrinsics fv currentBlock (e # es) l =
     (case processExtrinsic fv currentBlock e l of
        (Some err, l1) \<Rightarrow> (Some err, l1)
      | (None, l1) \<Rightarrow> processExtrinsics fv currentBlock es l1)"

text \<open>
  \<^verbatim>\<open>processBlock\<close>, given the header number of the fetched block and the extrinsics
  the client returns for it: \<^verbatim>\<open>currentBlock := int64(block.Block.Header.Number)\<close>.
\<close>

definition processBlock ::
  "FeeVars \<Rightarrow> 32 word \<Rightarrow> ExtrinsicResponse list \<Rightarrow> listener \<Rightarrow> NumError option \<times> listener" where
  "processBlock fv number extrinsics l = processExtrinsics fv (ucast number) extrinsics l"

subsection \<open>pollBlocks\<close>

text \<open>
  One turn of the loop of \<^verbatim>\<open>pollBlocks\<close> sees one of these: the stop signal, a
  failure to fetch the finalized hash, the finalized header or the hash of the current
  block (each sleeps and tries again), a failure to fetch the block itself (on which
  \<^verbatim>\<open>processBlock\<close> panics), or the block with its header number and extrinsics.
\<close>

datatype PollInput =
    StopSignal
  | FinalizedHashFailed
  | FinalizedHeaderFailed
  | BlockHashFailed
  | BlockFetchFailed
  | BlockFetched "32 word" "ExtrinsicResponse list"

record poller =
  currentBlock :: "64 word"
  blockStore :: "64 word list"
  follower :: listener

datatype PollError = Terminated | Panicked

text \<open>
  The loop over the inputs seen so far. \<open>None\<close> as the error means the loop is still
  running when the inputs end. After \<^verbatim>\<open>processBlock\<close> the error is printed, the block
  number is written to the block store and the cursor moves on.
\<close>

fun pollBlocks :: "FeeVars \<Rightarrow> PollInput list \<Rightarrow> poller \<Rightarrow> PollError option \<times> poller" where
  "pollBlocks fv [] p = (None, p)"
| "pollBlocks fv (StopSignal # rest) p = (Some Terminated, p)"
| "pollBlocks fv (FinalizedHashFailed # rest) p = pollBlocks fv rest p"
| "pollBlocks fv (FinalizedHeaderFailed # rest) p = pollBlocks fv rest p"
| "pollBlocks fv (BlockHashFailed # rest) p = pollBlocks fv rest p"
| "pollBlocks fv (BlockFetchFailed # rest) p = (Some Panicked, p)"
| "pollBlocks fv (BlockFetched number extrinsics # rest) p =
     (let (err, l) = processBlock fv number extrinsics (follower p)
      in pollBlocks fv rest
           (p\<lparr>follower := l,
              blockStore := blockStore p @ [currentBlock p],
              currentBlock := currentBlock p + 1\<rparr>))"


section \<open>The writer\<close>

subsection \<open>Constants\<close>

definition oneToken :: nat where
  "oneToken = 1000000"

definition Mod :: "64 word" where
  "Mod = 1"

definition NotExecuted :: MultiSignTx where
  "NotExecuted = \<lparr>BlockNumber = - 1, MultiSignTxId = 0\<rparr>"

subsection \<open>getRound\<close>

text \<open>
  \<^verbatim>\<open>getRound\<close>, given the number of the finalized header and
  \<^verbatim>\<open>w.relayer.totalRelayers\<close>: the height is \<^verbatim>\<open>int64(finalizedHeader.Number)\<close>, the modulus
  \<^verbatim>\<open>int64(totalRelayers*Mod)\<close>. \<^verbatim>\<open>big.Int.Mod\<close> is the Euclidean modulus and panics on
  a zero modulus (\<open>None\<close>).
\<close>

definition getRound :: "32 word \<Rightarrow> 64 word \<Rightarrow> int option" where
  "getRound finalizedNumber relayers =
     (let height = sint (ucast finalizedNumber :: 64 word);
          m = sint (relayers * Mod)
      in if m = 0 then None else Some (height mod \<bar>m\<bar>))"

text \<open>The test of \<^verbatim>\<open>redeemTx\<close> on the round, in unsigned 64-bit arithmetic:
  \<^verbatim>\<open>round.Uint64() == (w.relayer.currentRelayer*Mod - 1)\<close>.\<close>

definition roundMatches :: "int \<Rightarrow> 64 word \<Rightarrow> bool" where
  "roundMatches rnd current \<longleftrightarrow> (word_of_int rnd :: 64 word) = current * Mod - 1"

text \<open>Both together: whether the relayer with index \<open>current\<close> out of \<open>relayers\<close>
  takes its turn at the finalized height.\<close>

definition myTurn :: "32 word \<Rightarrow> 64 word \<Rightarrow> 64 word \<Rightarrow> bool option" where
  "myTurn finalizedNumber current relayers =
     (case getRound finalizedNumber relayers of
        None \<Rightarrow> None
      | Some rnd \<Rightarrow> Some (roundMatches rnd current))"

subsection \<open>isFinish\<close>

text \<open>
  The inner loop of \<^verbatim>\<open>isFinish\<close> over one list of signatories: \<^verbatim>\<open>isVote\<close> starts
  true and is set to false by every signatory whose decoded address equals the relayer's.
  The decoder \<^verbatim>\<open>types.NewAddressFromHexAccountID\<close> is a function of the RPC client
  library (its error is discarded by the source) and is passed as \<open>dec\<close>.
\<close>

primrec voteLoop :: "(string \<Rightarrow> 'addr) \<Rightarrow> 'addr \<Rightarrow> bool \<Rightarrow> string list \<Rightarrow> bool" where
  "voteLoop dec relayer isVote [] = isVote"
| "voteLoop dec relayer isVote (signatory # rest) =
     voteLoop dec relayer (if dec signatory = relayer then False else isVote) rest"

text \<open>
  The outer loop over \<^verbatim>\<open>ms.Others\<close>: it returns at the first list that leaves
  \<^verbatim>\<open>isVote\<close> true.
\<close>

primrec othersLoop :: "(string \<Rightarrow> 'addr) \<Rightarrow> 'addr \<Rightarrow> string list list \<Rightarrow> bool" where
  "othersLoop dec relayer [] = False"
| "othersLoop dec relayer (others # rest) =
     (if voteLoop dec relayer True others then True else othersLoop dec relayer rest)"

definition isFinish ::
  "(string \<Rightarrow> 'addr) \<Rightarrow> 'addr Relayer \<Rightarrow> MultiSigAsMulti \<Rightarrow> bool \<times> MultiSignTx" where
  "isFinish dec rel ms =
     (if Executed ms then (True, OriginMsTx ms)
      else if othersLoop dec (krAddress rel) (Others ms) then (True, NotExecuted)
      else (False, NotExecuted))"

subsection \<open>redeemTx\<close>

text \<open>\<^verbatim>\<open>big.NewInt(0).SetBytes\<close>: the bytes as a big-endian natural number.\<close>

definition SetBytes :: "string \<Rightarrow> nat" where
  "SetBytes bs = foldl (\<lambda>n b. n * 256 + of_char b) 0 bs"

text \<open>
  \<^verbatim>\<open>uint64(FixedFee + float64(amount) * FeeRate)\<close>, the writer's fee on an unsigned
  amount (outside the \<^verbatim>\<open>uint64\<close> range the model wraps, as for the listener).
\<close>

definition writerFee :: "FeeVars \<Rightarrow> 64 word \<Rightarrow> 64 word" where
  "writerFee fv amount = word_of_int (float64_trunc (feeFloat fv (uint amount)))"

datatype WriterPanic = IndexOutOfRange | DivisionByZero

text \<open>
  The loop of \<^verbatim>\<open>redeemTx\<close> over the records of the listener's map, in the order the
  \<^verbatim>\<open>range\<close> statement visits them. A record matches on the destination address
  (\<^verbatim>\<open>destAddress[2:]\<close>) and on the amount printed in decimal. At the first match the
  loop returns what \<^verbatim>\<open>isFinish\<close> reports when it says finished (\<open>Inl\<close>), and else leaves
  with the record's time point and the writer's \<^verbatim>\<open>maxWeight\<close>; without a match the
  time point stays empty and the weight 0.
\<close>

fun matchLoop ::
  "(string \<Rightarrow> 'addr) \<Rightarrow> 'addr Relayer \<Rightarrow> 64 word \<Rightarrow> string \<Rightarrow> string \<Rightarrow> MultiSigAsMulti list
     \<Rightarrow> (bool \<times> MultiSignTx) + ((32 word \<times> 32 word) option \<times> 64 word)" where
  "matchLoop dec rel weight dest amount [] = Inr (None, 0)"
| "matchLoop dec rel weight dest amount (ms # rest) =
     (if DestAddress ms = dest \<and> DestAmount ms = amount
      then (case isFinish dec rel ms of
              (finished, executed) \<Rightarrow>
                if finished then Inl (finished, executed)
                else Inr (Some (ucast (BlockNumber (OriginMsTx ms)), MultiSignTxId (OriginMsTx ms)),
                          weight))
      else matchLoop dec rel weight dest amount rest)"

text \<open>
  The writer: its relayer, its \<^verbatim>\<open>maxWeight\<close>, and the calls it has submitted.
\<close>

record 'addr writer =
  relayer :: "'addr Relayer"
  maxWeight :: "64 word"
  submitted :: "AsMultiCall list"

text \<open>
  The branch of \<^verbatim>\<open>redeemTx\<close> taken in the relayer's round. \<open>records\<close> are the values of
  \<^verbatim>\<open>w.listener.msTxAsMulti\<close> in the order of the visit. Slicing \<^verbatim>\<open>destAddress[2:]\<close>
  panics on an address shorter than two bytes; the slice is taken at each visited
  record, so only a non-empty map reaches it.
\<close>

definition sendRound ::
  "(string \<Rightarrow> 'addr) \<Rightarrow> 'addr writer \<Rightarrow> string \<Rightarrow> 64 word \<Rightarrow> MultiSigAsMulti list
     \<Rightarrow> WriterPanic + ((bool \<times> MultiSignTx) \<times> 'addr writer)" where
  "sendRound dec w destAddress actualAmount records =
     (if records \<noteq> [] \<and> length destAddress < 2 then Inl IndexOutOfRange
      else case matchLoop dec (relayer w) (maxWeight w) (drop 2 destAddress)
                  (FormatInt (sint actualAmount)) records of
             Inl r \<Rightarrow> Inr (r, w)
           | Inr (maybeTimePoint, weight) \<Rightarrow>
               Inr ((False, NotExecuted),
                    w\<lparr>submitted := submitted w @
                       [\<lparr>callThreshold = multiSignThreshold (relayer w),
                         callOtherSignatories = otherSignatories (relayer w),
                         callMaybeTimePoint = maybeTimePoint,
                         callRecipient = destAddress,
                         callAmount = actualAmount,
                         callMaxWeight = weight\<rparr>]\<rparr>))"

text \<open>
  The waiting loop of \<^verbatim>\<open>redeemTx\<close>: each turn reads the finalized height; the list holds
  the heights read so far, and \<open>None\<close> says the relayer's round has not come within
  them.
\<close>

fun roundLoop ::
  "(string \<Rightarrow> 'addr) \<Rightarrow> 'addr writer \<Rightarrow> string \<Rightarrow> 64 word \<Rightarrow> MultiSigAsMulti list \<Rightarrow> 32 word list
     \<Rightarrow> (WriterPanic + ((bool \<times> MultiSignTx) \<times> 'addr writer)) option" where
  "roundLoop dec w destAddress actualAmount records [] = None"
| "roundLoop dec w destAddress actualAmount records (finalizedNumber # later) =
     (case getRound finalizedNumber (totalRelayers (relayer w)) of
        None \<Rightarrow> Some (Inl DivisionByZero)
      | Some rnd \<Rightarrow>
          if roundMatches rnd (currentRelayer (relayer w))
          then Some (sendRound dec w destAddress actualAmount records)
          else roundLoop dec w destAddress actualAmount records later)"

text \<open>
  \<^verbatim>\<open>redeemTx\<close>. The amount is \<^verbatim>\<open>Payload[0]\<close> divided by \<^verbatim>\<open>oneToken\<close>, read back with
  \<^verbatim>\<open>Uint64()\<close>; the fee and the actual amount are \<^verbatim>\<open>uint64\<close> values, and the guard
  \<^verbatim>\<open>actualAmount < 0\<close> compares such a value.
\<close>

definition redeemTx ::
  "(string \<Rightarrow> 'addr) \<Rightarrow> FeeVars \<Rightarrow> 'addr writer \<Rightarrow> Message \<Rightarrow> MultiSigAsMulti list \<Rightarrow> 32 word list
     \<Rightarrow> (WriterPanic + ((bool \<times> MultiSignTx) \<times> 'addr writer)) option" where
  "redeemTx dec fv w m records heights =
     (if length (Payload m) < 1 then Some (Inl IndexOutOfRange)
      else let bigAmt = SetBytes (Payload m ! 0) div oneToken;
               amt = (word_of_nat bigAmt :: 64 word);
               fee = writerFee fv amt;
               actualAmount = amt - fee
           in if actualAmount < 0 then Some (Inr ((True, NotExecuted), w))
              else if length (Payload m) < 2 then Some (Inl IndexOutOfRange)
              else roundLoop dec w (Payload m ! 1) actualAmount records heights)"

subsection \<open>ResolveMessage\<close>

text \<open>
  The goroutine \<^verbatim>\<open>ResolveMessage\<close> starts: up to \<^verbatim>\<open>retryTime = 5\<close> calls of \<^verbatim>\<open>redeemTx\<close>.
  The listener changes its map while the goroutine runs, so each call comes with the map as
  it is at that time, the order \<open>visit\<close> in which the \<^verbatim>\<open>range\<close> statement goes through
  its keys, and the finalized heights read while waiting for the round. When
  \<^verbatim>\<open>redeemTx\<close> reports finished, the entry under the returned key is deleted if the key
  passes the test against \<^verbatim>\<open>NotExecuted\<close>, and the goroutine ends. The result is the writer
  and the map when the goroutine ends; \<open>None\<close> says it has not ended within the calls given.
\<close>

type_synonym ledger = "MultiSignTx \<rightharpoonup> MultiSigAsMulti"

definition recordsOf :: "ledger \<Rightarrow> MultiSignTx list \<Rightarrow> MultiSigAsMulti list" where
  "recordsOf msTxs visit = List.map_filter msTxs visit"

definition finishTx :: "MultiSignTx \<Rightarrow> ledger \<Rightarrow> ledger" where
  "finishTx tx msTxs =
     (if BlockNumber tx \<noteq> BlockNumber NotExecuted \<and> MultiSignTxId tx \<noteq> MultiSignTxId NotExecuted
      then msTxs(tx := None)
      else msTxs)"

fun resolveLoop ::
  "(string \<Rightarrow> 'addr) \<Rightarrow> FeeVars \<Rightarrow> Message \<Rightarrow> nat
     \<Rightarrow> (ledger \<times> MultiSignTx list \<times> 32 word list) list \<Rightarrow> 'addr writer
     \<Rightarrow> (WriterPanic + 'addr writer \<times> ledger) option" where
  "resolveLoop dec fv m retryTime [] w = None"
| "resolveLoop dec fv m retryTime ((msTxs, visit, heights) # later) w =
     (case redeemTx dec fv w m (recordsOf msTxs visit) heights of
        None \<Rightarrow> None
      | Some (Inl panic) \<Rightarrow> Some (Inl panic)
      | Some (Inr ((isFinished, tx), w1)) \<Rightarrow>
          if isFinished then Some (Inr (w1, finishTx tx msTxs))
          else if retryTime - 1 = 0 then Some (Inr (w1, msTxs))
          else resolveLoop dec fv m (retryTime - 1) later w1)"

definition ResolveMessage ::
  "(string \<Rightarrow> 'addr) \<Rightarrow> FeeVars \<Rightarrow> Message
     \<Rightarrow> (ledger \<times> MultiSignTx list \<times> 32 word list) list \<Rightarrow> 'addr writer
     \<Rightarrow> (WriterPanic + 'addr writer \<times> ledger) option" where
  "ResolveMessage dec fv m calls w = resolveLoop dec fv m 5 calls w"


section \<open>Predicates used to state the properties of the ledger\<close>

text \<open>
  The ledger holds at most one record in flight per destination and amount: two entries
  that are both not executed and agree on \<^verbatim>\<open>DestAddress\<close> and \<^verbatim>\<open>DestAmount\<close> are the same
  entry.
\<close>

definition inFlightUnique :: "(MultiSignTx \<rightharpoonup> MultiSigAsMulti) \<Rightarrow> bool" where
  "inFlightUnique ledger \<longleftrightarrow>
     (\<forall>k1 k2 r1 r2.
        ledger k1 = Some r1 \<and> ledger k2 = Some r2 \<and> \<not> Executed r1 \<and> \<not> Executed r2 \<and>
        DestAddress r1 = DestAddress r2 \<and> DestAmount r1 = DestAmount r2 \<longrightarrow> k1 = k2)"

text \<open>
  The condition on the chain under which the listener keeps that property, since it
  inserts without looking: an \<^verbatim>\<open>AsMultiNew\<close> extrinsic arrives only when no record under
  another key is in flight for its destination and amount. \<open>newIsFresh\<close> states it
  for one extrinsic and the listener it meets, \<open>freshExtrinsics\<close> along the loop of
  \<^verbatim>\<open>processBlock\<close>, and \<open>freshInputs\<close> along the loop of \<^verbatim>\<open>pollBlocks\<close>.
\<close>

definition newIsFresh :: "64 word \<Rightarrow> ExtrinsicResponse \<Rightarrow> listener \<Rightarrow> bool" where
  "newIsFresh cb e l \<longleftrightarrow>
     (Type e = AsMultiNew \<longrightarrow>
        (\<forall>k ms. msTxAsMulti l k = Some ms \<and> inFlightMatch ms (destOnly e) \<longrightarrow> k = timePoint cb e))"

fun freshExtrinsics :: "FeeVars \<Rightarrow> 64 word \<Rightarrow> ExtrinsicResponse list \<Rightarrow> listener \<Rightarrow> bool" where
  "freshExtrinsics fv cb [] l = True"
| "freshExtrinsics fv cb (e # es) l =
     (newIsFresh cb e l \<and>
      (case processExtrinsic fv cb e l of
         (Some err, l1) \<Rightarrow> True
       | (None, l1) \<Rightarrow> freshExtrinsics fv cb es l1))"

fun freshInputs :: "FeeVars \<Rightarrow> PollInput list \<Rightarrow> poller \<Rightarrow> bool" where
  "freshInputs fv [] p = True"
| "freshInputs fv (StopSignal # rest) p = True"
| "freshInputs fv (FinalizedHashFailed # rest) p = freshInputs fv rest p"
| "freshInputs fv (FinalizedHeaderFailed # rest) p = freshInputs fv rest p"
| "freshInputs fv (BlockHashFailed # rest) p = freshInputs fv rest p"
| "freshInputs fv (BlockFetchFailed # rest) p = True"
| "freshInputs fv (BlockFetched number extrinsics # rest) p =
     (freshExtrinsics fv (ucast number) extrinsics (follower p) \<and>
      freshInputs fv rest
        (p\<lparr>follower := snd (processBlock fv number extrinsics (follower p)),
           blockStore := blockStore p @ [currentBlock p],
           currentBlock := currentBlock p + 1\<rparr>))"


section \<open>Evaluation rules\<close>

text \<open>The recursive library functions unfold on numerals only, so that the simplifier
  evaluates them on concrete inputs and leaves symbolic ones alone.\<close>

lemma decimal_numeral [simp]:
  "decimal (numeral k) = (if (numeral k :: nat) < 10 then [digitChar (numeral k)]
     else decimal (numeral k div 10) @ [digitChar (numeral k mod 10)])"
  by (subst decimal.simps) simp

lemma decimal_0 [simp]: "decimal 0 = ''0''"
  by (subst decimal.simps) (simp add: digitChar_def)

lemma decimal_1 [simp]: "decimal 1 = ''1''"
  by (subst decimal.simps) (simp add: digitChar_def)

lemma decimal_Suc_0 [simp]: "decimal (Suc 0) = ''1''"
  by (subst decimal.simps) (simp add: digitChar_def)

lemma bitlen_0 [simp]: "bitlen 0 = 0"
  by (subst bitlen.simps) simp

lemma bitlen_1 [simp]: "bitlen 1 = 1"
  by (subst bitlen.simps) simp

lemma bitlen_Suc_0 [simp]: "bitlen (Suc 0) = 1"
  by (subst bitlen.simps) simp

lemma bitlen_numeral [simp]: "bitlen (numeral k) = Suc (bitlen (numeral k div 2))"
  by (subst bitlen.simps) simp

lemmas parse_defs = depositNonce_def FormatInt_def digitChar_def ParseInt_def ParseUint_def
  digitVal_def maxUint64_def

lemmas float_defs = listenerFee_def writerFee_def feeFloat_def packageFees_def DOT_def
  float64_add_def float64_mul_def float64_of_int_def round53_def roundShift_def
  float64_trunc_def Let_def


section \<open>The round of the writer\<close>

lemma neg_le_uint: "- (2 ^ 63) \<le> uint w"
  by (rule order_trans [OF _ uint_nonnegative]) simp

lemma uint_lt_of_unat: "unat (n :: 64 word) < 2 ^ 63 \<Longrightarrow> uint n < 2 ^ 63"
  by (simp add: unat_eq_nat_uint del: nat_uint_eq)

lemma uint_pos_of_unat: "1 \<le> unat (n :: 64 word) \<Longrightarrow> 0 < uint n"
  by (simp add: unat_eq_nat_uint del: nat_uint_eq)

lemma sint_ucast_32_64: "sint (ucast (h :: 32 word) :: 64 word) = uint h"
proof -
  have "uint h < 2 ^ 32" using uint_bounded [of h] by simp
  then have "uint h < 2 ^ 63" by simp
  moreover have "- (2 ^ 63) \<le> uint h" by (rule neg_le_uint)
  ultimately have "signed_take_bit 63 (uint h) = uint h"
    by (intro signed_take_bit_int_eq_self) simp_all
  then show ?thesis by (simp add: signed_ucast_eq)
qed

lemma sint_small:
  assumes "unat (n :: 64 word) < 2 ^ 63"
  shows "sint n = uint n"
proof -
  have "uint n < 2 ^ 63" using assms by (rule uint_lt_of_unat)
  moreover have "- (2 ^ 63) \<le> uint n" by (rule neg_le_uint)
  ultimately have "signed_take_bit 63 (uint n) = uint n"
    by (intro signed_take_bit_int_eq_self) simp_all
  then show ?thesis by (simp add: sint_uint)
qed

lemma getRound_small:
  assumes "1 \<le> unat n" "unat n < 2 ^ 63"
  shows "getRound h n = Some (uint h mod uint n)"
proof -
  have "0 < uint n" using assms(1) by (rule uint_pos_of_unat)
  then show ?thesis
    by (simp add: getRound_def Mod_def sint_ucast_32_64 sint_small [OF assms(2)])
qed

lemma roundMatches_iff: "roundMatches r i \<longleftrightarrow> i = word_of_int (r + 1)"
  by (auto simp: roundMatches_def Mod_def)

text \<open>
  Claim C1, as the code has it. The relayer indices that take a turn are \<open>1, \<dots>, n\<close>:
  for every finalized height and every relayer count \<open>n\<close> with \<open>1 \<le> n < 2 ^ 63\<close>,
  exactly one index \<open>i\<close> with \<open>1 \<le> i \<le> n\<close> passes the test of \<^verbatim>\<open>redeemTx\<close> on the
  round, and index 0 never passes it (\<open>0 * Mod - 1\<close> wraps to \<open>2 ^ 64 - 1\<close>).
\<close>

theorem myTurn_one_based:
  assumes "1 \<le> unat n" "unat n < 2 ^ 63"
  shows "(\<exists>!i. 1 \<le> unat i \<and> unat i \<le> unat n \<and> myTurn h i n = Some True) \<and>
         myTurn h 0 n = Some False"
proof -
  define r where "r = uint h mod uint n"
  have n0: "0 < uint n" using assms(1) by (rule uint_pos_of_unat)
  have n63: "uint n < 2 ^ 63" using assms(2) by (rule uint_lt_of_unat)
  have r0: "0 \<le> r" and rn: "r < uint n" using n0 by (simp_all add: r_def)
  have turn: "myTurn h i n = Some (i = word_of_int (r + 1))" for i
    by (simp add: myTurn_def getRound_small [OF assms] roundMatches_iff r_def)
  have "(r + 1) mod 2 ^ 64 = r + 1"
    using r0 rn n63 by (intro mod_pos_pos_trivial) simp_all
  then have u: "uint (word_of_int (r + 1) :: 64 word) = r + 1"
    unfolding uint_word_of_int by simp
  have "1 \<le> unat (word_of_int (r + 1) :: 64 word) \<and>
        unat (word_of_int (r + 1) :: 64 word) \<le> unat n"
    unfolding unat_eq_nat_uint u using r0 rn by linarith
  then have ex: "\<exists>!i. 1 \<le> unat i \<and> unat i \<le> unat n \<and> myTurn h i n = Some True"
    by (auto simp: turn)
  have "(0 :: 64 word) \<noteq> word_of_int (r + 1)"
  proof
    assume "(0 :: 64 word) = word_of_int (r + 1)"
    then have "uint (0 :: 64 word) = r + 1" using u by simp
    then show False using r0 by simp
  qed
  then have "myTurn h 0 n = Some False" by (simp add: turn)
  with ex show ?thesis by simp
qed

theorem myTurn_one_based_witness:
  "1 \<le> unat (3 :: 64 word) \<and> unat (3 :: 64 word) < 2 ^ 63 \<and>
   (\<exists>!i. 1 \<le> unat i \<and> unat i \<le> unat (3 :: 64 word) \<and> myTurn 100 i 3 = Some True) \<and>
   myTurn 100 0 3 = Some False"
  using myTurn_one_based [of 3 100] by simp

text \<open>Index 0 takes no turn for any number of relayers: the round is below
  \<open>2 ^ 63\<close>, and the index is tested as \<open>2 ^ 64 - 1\<close>.\<close>

lemma myTurn_index_zero: "myTurn h 0 n \<noteq> Some True"
proof (cases "sint (n * Mod) = 0")
  case True
  then show ?thesis by (simp add: myTurn_def getRound_def)
next
  case False
  let ?m = "\<bar>sint (n * Mod)\<bar>"
  let ?r = "uint h mod ?m"
  have m: "0 < ?m" using False by simp
  have "- (2 ^ 63) \<le> sint (n * Mod) \<and> sint (n * Mod) < 2 ^ 63"
    using sint_range_size [of "n * Mod"] by (simp add: word_size)
  then have "?m \<le> 2 ^ 63" by linarith
  then have r: "0 \<le> ?r" "?r < 2 ^ 63"
    using m pos_mod_bound [OF m, of "uint h"] pos_mod_sign [OF m, of "uint h"] by linarith+
  have "?r mod 2 ^ 64 = ?r" using r by (intro mod_pos_pos_trivial) simp_all
  then have u: "uint (word_of_int ?r :: 64 word) = ?r"
    unfolding uint_word_of_int by simp
  have "(word_of_int ?r :: 64 word) \<noteq> - 1"
  proof
    assume "(word_of_int ?r :: 64 word) = - 1"
    then have "uint (word_of_int ?r :: 64 word) = uint (- 1 :: 64 word)" by simp
    moreover have "uint (- 1 :: 64 word) = 2 ^ 64 - 1"
      by (simp add: unsigned_minus_1_eq_mask mask_eq_exp_minus_1)
    ultimately have "?r = 2 ^ 64 - 1" unfolding u by simp
    with r show False by simp
  qed
  then show ?thesis
    using False by (simp add: myTurn_def getRound_def roundMatches_def sint_ucast_32_64 Let_def)
qed

text \<open>
  With three relayers and finalized height 2 the round is 2, and none of the indices
  0, 1, 2 takes the turn; index 0, tested as \<open>2 ^ 64 - 1\<close>, does not take it.
\<close>

theorem myTurn_zero_based_counterexample:
  "myTurn 2 0 3 = Some False \<and> myTurn 2 1 3 = Some False \<and> myTurn 2 2 3 = Some False"
  by (simp add: myTurn_def getRound_def roundMatches_def Mod_def)


section \<open>isFinish\<close>

lemma voteLoop_False: "voteLoop dec r False xs = False"
  by (induction xs) simp_all

lemma voteLoop_True: "voteLoop dec r True xs \<longleftrightarrow> r \<notin> dec ` set xs"
  by (induction xs) (auto simp: voteLoop_False)

lemma othersLoop_iff:
  "othersLoop dec r xss \<longleftrightarrow> (\<exists>others \<in> set xss. r \<notin> dec ` set others)"
  by (induction xss) (auto simp: voteLoop_True)

text \<open>
  Claim C2. \<^verbatim>\<open>isFinish\<close> returns \<open>(true, ms.OriginMsTx)\<close> when the record is executed.
  Otherwise it returns \<open>(true, NotExecuted)\<close> exactly when some list of \<^verbatim>\<open>ms.Others\<close>
  does not contain the relayer's own account, and \<open>(false, NotExecuted)\<close> exactly when
  every list contains it.
\<close>

theorem isFinish_cases:
  "(Executed ms \<longrightarrow> isFinish dec rel ms = (True, OriginMsTx ms)) \<and>
   (\<not> Executed ms \<longrightarrow>
      (isFinish dec rel ms = (True, NotExecuted)
         \<longleftrightarrow> (\<exists>others \<in> set (Others ms). krAddress rel \<notin> dec ` set others)) \<and>
      (isFinish dec rel ms = (False, NotExecuted)
         \<longleftrightarrow> (\<forall>others \<in> set (Others ms). krAddress rel \<in> dec ` set others)))"
  by (auto simp: isFinish_def othersLoop_iff)

theorem isFinish_cases_witness:
  "\<not> Executed \<lparr>Executed = False, Threshold = 2, MaybeTimePoint = None, DestAddress = ''abcd'',
       DestAmount = ''1000000'', Others = [[''0xA'', ''0xB''], [''0xB'', ''0xC'']],
       StoreCall = [], MaxWeight = 0,
       OriginMsTx = \<lparr>BlockNumber = 100, MultiSignTxId = 3\<rparr>\<rparr> \<and>
   (\<exists>others \<in> set [[''0xA'', ''0xB''], [''0xB'', ''0xC'']]. ''0xA'' \<notin> (\<lambda>s. s) ` set others) \<and>
   isFinish (\<lambda>s. s)
     \<lparr>krAddress = ''0xA'', otherSignatories = [''0xB'', ''0xC''], totalRelayers = 3,
      multiSignThreshold = 2, currentRelayer = 1\<rparr>
     \<lparr>Executed = False, Threshold = 2, MaybeTimePoint = None, DestAddress = ''abcd'',
       DestAmount = ''1000000'', Others = [[''0xA'', ''0xB''], [''0xB'', ''0xC'']],
       StoreCall = [], MaxWeight = 0,
       OriginMsTx = \<lparr>BlockNumber = 100, MultiSignTxId = 3\<rparr>\<rparr> = (True, NotExecuted)"
  using isFinish_cases [of
     "\<lparr>Executed = False, Threshold = 2, MaybeTimePoint = None, DestAddress = ''abcd'',
       DestAmount = ''1000000'', Others = [[''0xA'', ''0xB''], [''0xB'', ''0xC'']],
       StoreCall = [], MaxWeight = 0,
       OriginMsTx = \<lparr>BlockNumber = 100, MultiSignTxId = 3\<rparr>\<rparr>"
     "\<lambda>s. s"
     "\<lparr>krAddress = ''0xA'', otherSignatories = [''0xB'', ''0xC''], totalRelayers = 3,
      multiSignThreshold = 2, currentRelayer = 1\<rparr>"]
  by simp


section \<open>The loop body of processBlock, by kind of extrinsic\<close>

lemma processExtrinsic_New:
  "Type e = AsMultiNew \<Longrightarrow>
   processExtrinsic fv cb e l =
     (None, l\<lparr>currentTx := timePoint cb e,
              msTxAsMulti := (msTxAsMulti l)(timePoint cb e \<mapsto>
                \<lparr>Executed = False,
                 Threshold = argThreshold (AsMulti e),
                 MaybeTimePoint = argMaybeTimePoint (AsMulti e),
                 DestAddress = argDestAddress (AsMulti e),
                 DestAmount = argDestAmount (AsMulti e),
                 Others = [argOtherSignatories (AsMulti e)],
                 StoreCall = argStoreCall (AsMulti e),
                 MaxWeight = argMaxWeight (AsMulti e),
                 OriginMsTx = timePoint cb e\<rparr>)\<rparr>)"
  by (simp add: processExtrinsic_def)

lemma processExtrinsic_Approve:
  "Type e = AsMultiApprove \<Longrightarrow>
   processExtrinsic fv cb e l = (None, markVote (destOnly e) e (l\<lparr>currentTx := timePoint cb e\<rparr>))"
  by (simp add: processExtrinsic_def)

lemma processExtrinsic_Executed:
  "Type e = AsMultiExecuted \<Longrightarrow>
   processExtrinsic fv cb e l =
     (None, markExecution (destOnly e) (markVote (destOnly e) e (l\<lparr>currentTx := timePoint cb e\<rparr>)))"
  by (simp add: processExtrinsic_def)

lemma processExtrinsic_Other:
  "Type e = OtherExtrinsic \<Longrightarrow>
   processExtrinsic fv cb e l = (None, l\<lparr>currentTx := timePoint cb e\<rparr>)"
  by (simp add: processExtrinsic_def)

lemma processExtrinsic_Batch_error:
  "Type e = UtilityBatch \<Longrightarrow> ParseInt (Amount e) = (a, Some err) \<Longrightarrow>
   processExtrinsic fv cb e l = (Some err, l\<lparr>currentTx := timePoint cb e\<rparr>)"
  by (simp add: processExtrinsic_def)

lemma processExtrinsic_Batch:
  "Type e = UtilityBatch \<Longrightarrow> ParseInt (Amount e) = (a, None) \<Longrightarrow>
   processExtrinsic fv cb e l =
     (None, l\<lparr>currentTx := timePoint cb e,
              routed := routed l @
                [\<lparr>tSource = chainId l, tDestination = destId l,
                  tDepositNonce = word_of_int (depositNonce (sint cb) (sint (ExtrinsicIndex e))),
                  tAmount = sint (word_of_int a - listenerFee fv (word_of_int a)),
                  tResourceId = resourceId l, tRecipient = Recipient e\<rparr>]\<rparr>)"
  by (simp add: processExtrinsic_def submitMessage_def Let_def)

section \<open>Outbound transfers\<close>

lemma parse_1000000: "ParseInt ''1000000'' = (1000000, None)"
  by (simp add: parse_defs)

lemma fee_1000000: "listenerFee packageFees 1000000 = 1000"
  by (simp add: float_defs)

lemma nonce_200_4: "depositNonce 200 4 = 2004"
  by (simp add: parse_defs)

text \<open>
  Claim C9. Processing block 200 whose extrinsic at index 4 is a \<^verbatim>\<open>UtilityBatch\<close> with
  amount \<^verbatim>\<open>"1000000"\<close> and recipient \<^verbatim>\<open>"0xdead"\<close>, with the package's \<^verbatim>\<open>FeeRate = 0.001\<close>
  and \<^verbatim>\<open>FixedFee = 0\<close>, returns no error and hands the router exactly one transfer, of
  amount 999000 and nonce 2004, whatever the listener's state and the other fields of
  the extrinsic.
\<close>

theorem processBlock_outbound_scenario:
  "processBlock packageFees 200
     [e\<lparr>Type := UtilityBatch, Amount := ''1000000'', Recipient := ''0xdead'',
        ExtrinsicIndex := 4\<rparr>] l =
   (None, l\<lparr>currentTx := \<lparr>BlockNumber = 200, MultiSignTxId = 4\<rparr>,
            routed := routed l @
              [\<lparr>tSource = chainId l, tDestination = destId l, tDepositNonce = 2004,
                tAmount = 999000, tResourceId = resourceId l, tRecipient = ''0xdead''\<rparr>]\<rparr>)"
  by (simp add: processBlock_def processExtrinsic_Batch [where a = 1000000] parse_1000000
        fee_1000000 nonce_200_4 timePoint_def)

lemma parse_0: "ParseInt ''0'' = (0, None)"
  by (simp add: parse_defs)

lemma fee_0: "listenerFee packageFees 0 = 0"
  by (simp add: float_defs)

text \<open>
  Claim C4, as the code has it. The listener has no test on the amount after the fee:
  for every \<^verbatim>\<open>UtilityBatch\<close> extrinsic whose amount parses, the loop body returns no
  error and hands the router exactly one transfer, whose amount is the amount minus the
  fee, also when that is zero or negative.
\<close>

theorem utilityBatch_always_routed:
  assumes "Type e = UtilityBatch" and "ParseInt (Amount e) = (a, None)"
  shows "fst (processExtrinsic fv cb e l) = None \<and>
         routed (snd (processExtrinsic fv cb e l)) =
           routed l @
             [\<lparr>tSource = chainId l, tDestination = destId l,
               tDepositNonce = word_of_int (depositNonce (sint cb) (sint (ExtrinsicIndex e))),
               tAmount = sint (word_of_int a - listenerFee fv (word_of_int a)),
               tResourceId = resourceId l, tRecipient = Recipient e\<rparr>]"
  by (simp add: processExtrinsic_Batch [OF assms])

theorem utilityBatch_always_routed_witness:
  "Type \<lparr>Type = UtilityBatch, FromAddress = ''0xf00d'', Amount = ''0'', Recipient = ''0xdead'',
         ExtrinsicIndex = 4,
         AsMulti = \<lparr>argThreshold = 0, argOtherSignatories = [], argMaybeTimePoint = None,
           argDestAddress = [], argDestAmount = [], argStoreCall = [],
           argMaxWeight = 0\<rparr>\<rparr> = UtilityBatch \<and>
   ParseInt ''0'' = (0, None) \<and>
   routed (snd (processExtrinsic packageFees 200
     \<lparr>Type = UtilityBatch, FromAddress = ''0xf00d'', Amount = ''0'', Recipient = ''0xdead'',
      ExtrinsicIndex = 4,
      AsMulti = \<lparr>argThreshold = 0, argOtherSignatories = [], argMaybeTimePoint = None,
        argDestAddress = [], argDestAmount = [], argStoreCall = [],
        argMaxWeight = 0\<rparr>\<rparr>
     (NewListener 1 2 []))) =
   [\<lparr>tSource = 1, tDestination = 2, tDepositNonce = 2004, tAmount = 0,
     tResourceId = [], tRecipient = ''0xdead''\<rparr>]"
  using utilityBatch_always_routed [of
     "\<lparr>Type = UtilityBatch, FromAddress = ''0xf00d'', Amount = ''0'', Recipient = ''0xdead'',
      ExtrinsicIndex = 4,
      AsMulti = \<lparr>argThreshold = 0, argOtherSignatories = [], argMaybeTimePoint = None,
        argDestAddress = [], argDestAmount = [], argStoreCall = [],
        argMaxWeight = 0\<rparr>\<rparr>"
     0 packageFees 200 "NewListener 1 2 []"]
  by (simp add: parse_0 fee_0 nonce_200_4 NewListener_def)

text \<open>
  A \<^verbatim>\<open>UtilityBatch\<close> of amount \<^verbatim>\<open>"0"\<close> in block 200: the fee is 0, the amount after the
  fee is 0, and the router still receives a transfer, of amount 0.
\<close>

theorem utilityBatch_zero_counterexample:
  "sint ((0 :: 64 word) - listenerFee packageFees 0) = 0 \<and>
   processBlock packageFees 200
     [\<lparr>Type = UtilityBatch, FromAddress = ''0xf00d'', Amount = ''0'', Recipient = ''0xdead'',
       ExtrinsicIndex = 4,
       AsMulti = \<lparr>argThreshold = 0, argOtherSignatories = [], argMaybeTimePoint = None,
         argDestAddress = [], argDestAmount = [], argStoreCall = [],
         argMaxWeight = 0\<rparr>\<rparr>]
     (NewListener 1 2 []) =
   (None, \<lparr>chainId = 1, destId = 2, resourceId = [],
           currentTx = \<lparr>BlockNumber = 200, MultiSignTxId = 4\<rparr>,
           msTxAsMulti = Map.empty,
           routed = [\<lparr>tSource = 1, tDestination = 2, tDepositNonce = 2004, tAmount = 0,
                      tResourceId = [], tRecipient = ''0xdead''\<rparr>]\<rparr>)"
  by (simp add: processBlock_def processExtrinsic_Batch [where a = 0] parse_0 fee_0
        nonce_200_4 timePoint_def NewListener_def)

section \<open>A block whose amount does not parse\<close>

text \<open>An error in the loop body ends \<^verbatim>\<open>processBlock\<close>: the extrinsics after it are
  not looked at.\<close>

lemma processExtrinsics_stops_at_error:
  "processExtrinsic fv cb e l = (Some err, l1) \<Longrightarrow>
   processExtrinsics fv cb (e # es) l = (Some err, l1)"
  by simp

text \<open>Whatever \<^verbatim>\<open>processBlock\<close> returns, \<^verbatim>\<open>pollBlocks\<close> stores the block number and
  moves the cursor by one.\<close>

lemma pollBlocks_block:
  "pollBlocks fv [BlockFetched number extrinsics] p =
     (None, p\<lparr>follower := snd (processBlock fv number extrinsics (follower p)),
              blockStore := blockStore p @ [currentBlock p],
              currentBlock := currentBlock p + 1\<rparr>)"
  by (simp add: split_beta)

lemma parse_abc: "ParseInt ''abc'' = (0, Some ErrSyntax)"
  by (simp add: parse_defs)

text \<open>
  Claim C10 at a concrete block. Block 7 holds a \<^verbatim>\<open>UtilityBatch\<close> with the amount
  \<^verbatim>\<open>"abc"\<close> at index 2 and a well-formed one at index 3. \<^verbatim>\<open>processBlock\<close> returns the
  syntax error at the first, and the second is not processed: nothing reaches the router.
  \<^verbatim>\<open>pollBlocks\<close> then writes block 7 to the block store and moves the cursor to 8.
\<close>

theorem pollBlocks_parse_error_advances:
  "pollBlocks packageFees
     [BlockFetched 7
        [\<lparr>Type = UtilityBatch, FromAddress = ''0xf00d'', Amount = ''abc'', Recipient = ''0xdead'',
          ExtrinsicIndex = 2,
          AsMulti = \<lparr>argThreshold = 0, argOtherSignatories = [], argMaybeTimePoint = None,
            argDestAddress = [], argDestAmount = [], argStoreCall = [],
            argMaxWeight = 0\<rparr>\<rparr>,
         \<lparr>Type = UtilityBatch, FromAddress = ''0xf00d'', Amount = ''1000000'',
          Recipient = ''0xdead'', ExtrinsicIndex = 3,
          AsMulti = \<lparr>argThreshold = 0, argOtherSignatories = [], argMaybeTimePoint = None,
            argDestAddress = [], argDestAmount = [], argStoreCall = [],
            argMaxWeight = 0\<rparr>\<rparr>]]
     \<lparr>currentBlock = 7, blockStore = [], follower = NewListener 1 2 []\<rparr> =
   (None,
    \<lparr>currentBlock = 8, blockStore = [7],
     follower = \<lparr>chainId = 1, destId = 2, resourceId = [],
                 currentTx = \<lparr>BlockNumber = 7, MultiSignTxId = 2\<rparr>,
                 msTxAsMulti = Map.empty, routed = []\<rparr>\<rparr>) \<and>
   processBlock packageFees 7
     [\<lparr>Type = UtilityBatch, FromAddress = ''0xf00d'', Amount = ''abc'', Recipient = ''0xdead'',
       ExtrinsicIndex = 2,
       AsMulti = \<lparr>argThreshold = 0, argOtherSignatories = [], argMaybeTimePoint = None,
         argDestAddress = [], argDestAmount = [], argStoreCall = [],
         argMaxWeight = 0\<rparr>\<rparr>,
      \<lparr>Type = UtilityBatch, FromAddress = ''0xf00d'', Amount = ''1000000'',
       Recipient = ''0xdead'', ExtrinsicIndex = 3,
       AsMulti = \<lparr>argThreshold = 0, argOtherSignatories = [], argMaybeTimePoint = None,
         argDestAddress = [], argDestAmount = [], argStoreCall = [],
         argMaxWeight = 0\<rparr>\<rparr>]
     (NewListener 1 2 []) =
   (Some ErrSyntax,
    \<lparr>chainId = 1, destId = 2, resourceId = [],
     currentTx = \<lparr>BlockNumber = 7, MultiSignTxId = 2\<rparr>,
     msTxAsMulti = Map.empty, routed = []\<rparr>)"
  by (simp add: processBlock_def processExtrinsic_Batch_error [where a = 0 and err = ErrSyntax]
        parse_abc timePoint_def NewListener_def)


section \<open>The ledger under the listener\<close>

lemma markVote_ledger:
  "msTxAsMulti (markVote t e l) k =
     (case msTxAsMulti l k of
        None \<Rightarrow> None
      | Some ms \<Rightarrow>
          if inFlightMatch ms t
          then Some (ms\<lparr>Others := Others ms @ [argOtherSignatories (AsMulti e)]\<rparr>)
          else Some ms)"
  by (simp add: markVote_def)

lemma markExecution_ledger:
  "msTxAsMulti (markExecution t l) k =
     (case msTxAsMulti l k of
        None \<Rightarrow> None
      | Some ms \<Rightarrow> if inFlightMatch ms t then Some (ms\<lparr>Executed := True\<rparr>) else Some ms)"
  by (simp add: markExecution_def)

subsection \<open>An executed record stays as it is\<close>









subsection \<open>At most one record in flight per destination and amount\<close>

lemma inFlightUnique_sim:
  assumes "inFlightUnique L"
    and "\<And>k r'. L' k = Some r' \<Longrightarrow> \<not> Executed r' \<Longrightarrow>
           \<exists>r. L k = Some r \<and> \<not> Executed r \<and> DestAddress r = DestAddress r' \<and>
               DestAmount r = DestAmount r'"
  shows "inFlightUnique L'"
  unfolding inFlightUnique_def
proof (intro allI impI)
  fix k1 k2 r1 r2
  assume h: "L' k1 = Some r1 \<and> L' k2 = Some r2 \<and> \<not> Executed r1 \<and> \<not> Executed r2 \<and>
             DestAddress r1 = DestAddress r2 \<and> DestAmount r1 = DestAmount r2"
  from h assms(2) [of k1 r1] obtain s1 where
    s1: "L k1 = Some s1" "\<not> Executed s1" "DestAddress s1 = DestAddress r1"
        "DestAmount s1 = DestAmount r1"
    by auto
  from h assms(2) [of k2 r2] obtain s2 where
    s2: "L k2 = Some s2" "\<not> Executed s2" "DestAddress s2 = DestAddress r2"
        "DestAmount s2 = DestAmount r2"
    by auto
  from assms(1) s1 s2 h show "k1 = k2"
    unfolding inFlightUnique_def by metis
qed

lemma markVote_sim:
  assumes "msTxAsMulti (markVote t e l) k = Some r'" and "\<not> Executed r'"
  shows "\<exists>r. msTxAsMulti l k = Some r \<and> \<not> Executed r \<and> DestAddress r = DestAddress r' \<and>
             DestAmount r = DestAmount r'"
  using assms by (auto simp: markVote_ledger split: option.splits if_splits)

lemma markExecution_sim:
  assumes "msTxAsMulti (markExecution t l) k = Some r'" and "\<not> Executed r'"
  shows "\<exists>r. msTxAsMulti l k = Some r \<and> \<not> Executed r \<and> DestAddress r = DestAddress r' \<and>
             DestAmount r = DestAmount r'"
  using assms by (auto simp: markExecution_ledger split: option.splits if_splits)

lemma inFlightUnique_markVote:
  "inFlightUnique (msTxAsMulti l) \<Longrightarrow> inFlightUnique (msTxAsMulti (markVote t e l))"
  by (erule inFlightUnique_sim) (rule markVote_sim)

lemma inFlightUnique_markExecution:
  "inFlightUnique (msTxAsMulti l) \<Longrightarrow> inFlightUnique (msTxAsMulti (markExecution t l))"
  by (erule inFlightUnique_sim) (rule markExecution_sim)

lemma inFlightUnique_insert:
  assumes "inFlightUnique L"
    and "\<And>k ms. L k = Some ms \<Longrightarrow> \<not> Executed ms \<Longrightarrow> DestAddress ms = DestAddress new \<Longrightarrow>
           DestAmount ms = DestAmount new \<Longrightarrow> k = tp"
  shows "inFlightUnique (L(tp \<mapsto> new))"
  unfolding inFlightUnique_def
proof (intro allI impI)
  fix k1 k2 r1 r2
  assume h: "(L(tp \<mapsto> new)) k1 = Some r1 \<and> (L(tp \<mapsto> new)) k2 = Some r2 \<and>
             \<not> Executed r1 \<and> \<not> Executed r2 \<and>
             DestAddress r1 = DestAddress r2 \<and> DestAmount r1 = DestAmount r2"
  show "k1 = k2"
  proof (cases "k1 = tp")
    case True
    show ?thesis
    proof (cases "k2 = tp")
      case True
      with \<open>k1 = tp\<close> show ?thesis by simp
    next
      case False
      with h True have "L k2 = Some r2" "r1 = new" by simp_all
      with h assms(2) [of k2 r2] have "k2 = tp" by simp
      with False show ?thesis by simp
    qed
  next
    case False
    show ?thesis
    proof (cases "k2 = tp")
      case True
      with h False have "L k1 = Some r1" "r2 = new" by simp_all
      with h assms(2) [of k1 r1] have "k1 = tp" by simp
      with False show ?thesis by simp
    next
      case k2: False
      with h False have "L k1 = Some r1" "L k2 = Some r2" by simp_all
      with assms(1) h show ?thesis unfolding inFlightUnique_def by metis
    qed
  qed
qed

lemma processExtrinsic_inFlightUnique:
  assumes "inFlightUnique (msTxAsMulti l)" and "newIsFresh cb e l"
  shows "inFlightUnique (msTxAsMulti (snd (processExtrinsic fv cb e l)))"
proof (cases "Type e")
  case AsMultiNew
  have "inFlightUnique ((msTxAsMulti l)(timePoint cb e \<mapsto>
          \<lparr>Executed = False,
           Threshold = argThreshold (AsMulti e),
           MaybeTimePoint = argMaybeTimePoint (AsMulti e),
           DestAddress = argDestAddress (AsMulti e),
           DestAmount = argDestAmount (AsMulti e),
           Others = [argOtherSignatories (AsMulti e)],
           StoreCall = argStoreCall (AsMulti e),
           MaxWeight = argMaxWeight (AsMulti e),
           OriginMsTx = timePoint cb e\<rparr>))"
    using assms(2) AsMultiNew
    by (intro inFlightUnique_insert [OF assms(1)])
       (auto simp: newIsFresh_def inFlightMatch_def destOnly_def)
  then show ?thesis using AsMultiNew by (simp add: processExtrinsic_New)
next
  case AsMultiApprove
  have "inFlightUnique (msTxAsMulti (markVote (destOnly e) e (l\<lparr>currentTx := timePoint cb e\<rparr>)))"
    using assms(1) by (intro inFlightUnique_markVote) simp
  then show ?thesis using AsMultiApprove by (simp add: processExtrinsic_Approve)
next
  case AsMultiExecuted
  have "inFlightUnique (msTxAsMulti (markExecution (destOnly e)
          (markVote (destOnly e) e (l\<lparr>currentTx := timePoint cb e\<rparr>))))"
    using assms(1) by (intro inFlightUnique_markExecution inFlightUnique_markVote) simp
  then show ?thesis using AsMultiExecuted by (simp add: processExtrinsic_Executed)
next
  case UtilityBatch
  obtain a err where p: "ParseInt (Amount e) = (a, err)" by (cases "ParseInt (Amount e)")
  show ?thesis
  proof (cases err)
    case None
    with p UtilityBatch assms show ?thesis by (simp add: processExtrinsic_Batch)
  next
    case (Some x)
    with p UtilityBatch assms show ?thesis by (simp add: processExtrinsic_Batch_error)
  qed
next
  case OtherExtrinsic
  with assms show ?thesis by (simp add: processExtrinsic_Other)
qed

lemma processExtrinsics_inFlightUnique:
  assumes "inFlightUnique (msTxAsMulti l)" and "freshExtrinsics fv cb es l"
  shows "inFlightUnique (msTxAsMulti (snd (processExtrinsics fv cb es l)))"
  using assms
proof (induction es arbitrary: l)
  case Nil
  then show ?case by simp
next
  case (Cons e es)
  obtain err l1 where step: "processExtrinsic fv cb e l = (err, l1)"
    by (cases "processExtrinsic fv cb e l")
  have "inFlightUnique (msTxAsMulti (snd (processExtrinsic fv cb e l)))"
    using Cons.prems by (intro processExtrinsic_inFlightUnique) simp_all
  then have l1: "inFlightUnique (msTxAsMulti l1)" using step by simp
  show ?case
  proof (cases err)
    case None
    have "freshExtrinsics fv cb es l1" using Cons.prems(2) step None by simp
    then have "inFlightUnique (msTxAsMulti (snd (processExtrinsics fv cb es l1)))"
      using l1 by (intro Cons.IH)
    with step None show ?thesis by simp
  next
    case (Some x)
    with step l1 show ?thesis by simp
  qed
qed

lemma pollBlocks_inFlightUnique:
  assumes "inFlightUnique (msTxAsMulti (follower p))" and "freshInputs fv inputs p"
  shows "inFlightUnique (msTxAsMulti (follower (snd (pollBlocks fv inputs p))))"
  using assms
proof (induction fv inputs p rule: pollBlocks.induct)
  case (7 fv number extrinsics rest p)
  let ?l = "snd (processBlock fv number extrinsics (follower p))"
  let ?p = "p\<lparr>follower := ?l, blockStore := blockStore p @ [currentBlock p],
               currentBlock := currentBlock p + 1\<rparr>"
  have "inFlightUnique (msTxAsMulti ?l)"
    unfolding processBlock_def using "7.prems"
    by (intro processExtrinsics_inFlightUnique) simp_all
  then have "inFlightUnique (msTxAsMulti (follower ?p))" by simp
  moreover have "freshInputs fv rest ?p" using "7.prems"(2) by simp
  ultimately have "inFlightUnique (msTxAsMulti (follower (snd (pollBlocks fv rest ?p))))"
    using "7.IH" [OF refl, of "fst (processBlock fv number extrinsics (follower p))" ?l]
    by simp
  then show ?case by (simp add: split_beta)
qed auto

lemma inFlightUnique_empty: "inFlightUnique Map.empty"
  by (simp add: inFlightUnique_def)

text \<open>
  Claim C3, as the code has it. The listener inserts a record for every \<^verbatim>\<open>AsMultiNew\<close>
  extrinsic without looking at the ledger, so the property rests on the chain: starting
  from the empty ledger, for every run of the listener's loop in which each
  \<^verbatim>\<open>AsMultiNew\<close> extrinsic arrives while no other record is in flight for its destination
  and amount, the ledger never holds two records in flight with the same destination and
  amount.
\<close>

theorem ledger_inFlightUnique:
  assumes "msTxAsMulti (follower p) = Map.empty" and "freshInputs fv inputs p"
  shows "inFlightUnique (msTxAsMulti (follower (snd (pollBlocks fv inputs p))))"
  using assms by (intro pollBlocks_inFlightUnique) (simp_all add: inFlightUnique_empty)

theorem ledger_inFlightUnique_witness:
  "msTxAsMulti (follower \<lparr>currentBlock = 100, blockStore = [], follower = NewListener 1 2 []\<rparr>) = Map.empty \<and>
   inFlightUnique (msTxAsMulti (follower (snd (pollBlocks packageFees
      [BlockFetched 100
         [\<lparr>Type = AsMultiNew, FromAddress = ''0xA'', Amount = [], Recipient = [],
           ExtrinsicIndex = 3,
           AsMulti = \<lparr>argThreshold = 2, argOtherSignatories = [''0xB'', ''0xC''],
             argMaybeTimePoint = None, argDestAddress = ''abcd'',
             argDestAmount = ''1000000'', argStoreCall = [], argMaxWeight = 0\<rparr>\<rparr>],
       BlockFetched 101
         [\<lparr>Type = AsMultiExecuted, FromAddress = ''0xB'', Amount = [], Recipient = [],
           ExtrinsicIndex = 2,
           AsMulti = \<lparr>argThreshold = 2, argOtherSignatories = [''0xA'', ''0xC''],
             argMaybeTimePoint = Some (100, 3), argDestAddress = ''abcd'',
             argDestAmount = ''1000000'', argStoreCall = [], argMaxWeight = 0\<rparr>\<rparr>],
       BlockFetched 102
         [\<lparr>Type = AsMultiNew, FromAddress = ''0xA'', Amount = [], Recipient = [],
           ExtrinsicIndex = 1,
           AsMulti = \<lparr>argThreshold = 2, argOtherSignatories = [''0xB'', ''0xC''],
             argMaybeTimePoint = None, argDestAddress = ''abcd'',
             argDestAmount = ''1000000'', argStoreCall = [], argMaxWeight = 0\<rparr>\<rparr>]]
      \<lparr>currentBlock = 100, blockStore = [], follower = NewListener 1 2 []\<rparr>))))"
  (is "?A \<and> inFlightUnique (msTxAsMulti (follower (snd (pollBlocks _ ?inputs ?p))))")
proof -
  have h1: "msTxAsMulti (follower ?p) = Map.empty" by (simp add: NewListener_def)
  have h2: "freshInputs packageFees ?inputs ?p"
    by (auto simp: processBlock_def processExtrinsic_New processExtrinsic_Executed
          newIsFresh_def inFlightMatch_def destOnly_def zeroMsTx_def markVote_def
          markExecution_def timePoint_def NewListener_def split: if_splits option.splits)
  from h1 ledger_inFlightUnique [OF h1 h2] show ?thesis by (rule conjI)
qed

text \<open>
  One block with two \<^verbatim>\<open>AsMultiNew\<close> extrinsics, at indices 3 and 5, for the same
  destination and amount: both records are in the ledger afterwards, neither executed.
\<close>

theorem ledger_two_inFlight_counterexample:
  "msTxAsMulti (follower (snd (pollBlocks packageFees
      [BlockFetched 100
         [\<lparr>Type = AsMultiNew, FromAddress = ''0xA'', Amount = [], Recipient = [],
           ExtrinsicIndex = 3,
           AsMulti = \<lparr>argThreshold = 2, argOtherSignatories = [''0xB'', ''0xC''],
             argMaybeTimePoint = None, argDestAddress = ''abcd'',
             argDestAmount = ''1000000'', argStoreCall = [], argMaxWeight = 0\<rparr>\<rparr>,
          \<lparr>Type = AsMultiNew, FromAddress = ''0xB'', Amount = [], Recipient = [],
           ExtrinsicIndex = 5,
           AsMulti = \<lparr>argThreshold = 2, argOtherSignatories = [''0xA'', ''0xC''],
             argMaybeTimePoint = None, argDestAddress = ''abcd'',
             argDestAmount = ''1000000'', argStoreCall = [], argMaxWeight = 0\<rparr>\<rparr>]]
      \<lparr>currentBlock = 100, blockStore = [], follower = NewListener 1 2 []\<rparr>)))
     \<lparr>BlockNumber = 100, MultiSignTxId = 3\<rparr> =
   Some \<lparr>Executed = False, Threshold = 2, MaybeTimePoint = None, DestAddress = ''abcd'',
         DestAmount = ''1000000'', Others = [[''0xB'', ''0xC'']], StoreCall = [],
         MaxWeight = 0, OriginMsTx = \<lparr>BlockNumber = 100, MultiSignTxId = 3\<rparr>\<rparr> \<and>
   msTxAsMulti (follower (snd (pollBlocks packageFees
      [BlockFetched 100
         [\<lparr>Type = AsMultiNew, FromAddress = ''0xA'', Amount = [], Recipient = [],
           ExtrinsicIndex = 3,
           AsMulti = \<lparr>argThreshold = 2, argOtherSignatories = [''0xB'', ''0xC''],
             argMaybeTimePoint = None, argDestAddress = ''abcd'',
             argDestAmount = ''1000000'', argStoreCall = [], argMaxWeight = 0\<rparr>\<rparr>,
          \<lparr>Type = AsMultiNew, FromAddress = ''0xB'', Amount = [], Recipient = [],
           ExtrinsicIndex = 5,
           AsMulti = \<lparr>argThreshold = 2, argOtherSignatories = [''0xA'', ''0xC''],
             argMaybeTimePoint = None, argDestAddress = ''abcd'',
             argDestAmount = ''1000000'', argStoreCall = [], argMaxWeight = 0\<rparr>\<rparr>]]
      \<lparr>currentBlock = 100, blockStore = [], follower = NewListener 1 2 []\<rparr>)))
     \<lparr>BlockNumber = 100, MultiSignTxId = 5\<rparr> =
   Some \<lparr>Executed = False, Threshold = 2, MaybeTimePoint = None, DestAddress = ''abcd'',
         DestAmount = ''1000000'', Others = [[''0xA'', ''0xC'']], StoreCall = [],
         MaxWeight = 0, OriginMsTx = \<lparr>BlockNumber = 100, MultiSignTxId = 5\<rparr>\<rparr>"
  by (simp add: processBlock_def processExtrinsic_New timePoint_def NewListener_def)


section \<open>The fee under the package's variables\<close>

text \<open>
  Rounding to 53 bits at most doubles a non-negative value, and the conversion to an
  integer does not exceed it. With \<^verbatim>\<open>FixedFee = 0\<close> and \<^verbatim>\<open>FeeRate = 0.001\<close> the three
  roundings of the fee expression keep the fee below the amount.
\<close>

lemma bitlen_lower: "n \<noteq> 0 \<Longrightarrow> 2 ^ (bitlen n - 1) \<le> n"
proof (induction n rule: bitlen.induct)
  case (1 n)
  show ?case
  proof (cases "n div 2 = 0")
    case True
    with "1.prems" have "n = 1" by (simp add: div_eq_0_iff) 
    then show ?thesis by simp
  next
    case False
    then have ih: "2 ^ (bitlen (n div 2) - 1) \<le> n div 2" using "1.prems" by (intro "1.IH") simp_all
    have pos: "0 < bitlen (n div 2)" using False by (subst bitlen.simps) simp
    have "bitlen n = Suc (bitlen (n div 2))" using "1.prems" by (subst bitlen.simps) simp
    then have "2 ^ (bitlen n - 1) = (2::nat) * 2 ^ (bitlen (n div 2) - 1)"
      using pos by (cases "bitlen (n div 2)") simp_all
    also have "\<dots> \<le> 2 * (n div 2)" using ih by simp
    also have "\<dots> \<le> n" by simp
    finally show ?thesis .
  qed
qed

lemma roundShift_le: "roundShift a (bitlen a - 53) * 2 ^ (bitlen a - 53) \<le> 2 * a"
proof (cases "bitlen a - 53 = 0")
  case True
  then show ?thesis by (simp add: roundShift_def)
next
  case False
  let ?s = "bitlen a - 53"
  let ?q = "a div 2 ^ ?s"
  have a0: "a \<noteq> 0" using False by (cases "a = 0") simp_all
  have "(2::nat) ^ ?s \<le> 2 ^ (bitlen a - 1)" by (intro power_increasing) simp_all
  also have "\<dots> \<le> a" using a0 by (rule bitlen_lower)
  finally have "2 ^ ?s \<le> a" .
  then have q1: "1 \<le> ?q" by (simp add: div_greater_zero_iff Suc_le_eq)
  have "roundShift a ?s \<le> ?q + 1" by (simp add: roundShift_def Let_def)
  also have "\<dots> \<le> 2 * ?q" using q1 by simp
  finally have "roundShift a ?s * 2 ^ ?s \<le> 2 * ?q * 2 ^ ?s" by (rule mult_le_mono1)
  also have "\<dots> = 2 * (?q * 2 ^ ?s)" by simp
  also have "\<dots> \<le> 2 * a" by (intro mult_le_mono2) (simp add: div_times_less_eq_dividend)
  finally show ?thesis .
qed

lemma round53_nonneg: "0 \<le> fst x \<Longrightarrow> 0 \<le> fst (round53 x)"
  by (simp add: round53_def Let_def sgn_if)

lemma value_round53_le:
  assumes "0 \<le> fst x"
  shows "float64_value (round53 x) \<le> 2 * float64_value x"
proof (cases "fst x = 0")
  case True
  then show ?thesis by (simp add: float64_value_def round53_def Let_def)
next
  case False
  let ?a = "nat \<bar>fst x\<bar>"
  let ?s = "bitlen ?a - 53"
  have a: "int ?a = fst x" using assms by simp
  have sg: "sgn (fst x) = 1" using assms False by (simp add: sgn_if)
  have "float64_value (round53 x) = real (roundShift ?a ?s) * 2 powi (snd x + int ?s)"
    by (simp add: float64_value_def round53_def Let_def sg)
  also have "\<dots> = real (roundShift ?a ?s * 2 ^ ?s) * 2 powi (snd x)"
    by (simp add: power_int_add mult_ac)
  also have "\<dots> \<le> real (2 * ?a) * 2 powi (snd x)"
    using roundShift_le [of ?a] by (intro mult_right_mono) (simp_all del: of_nat_mult of_nat_power)
  also have "\<dots> = 2 * float64_value x"
    using a by (simp add: float64_value_def)
  finally show ?thesis .
qed

lemma trunc_nonneg: "0 \<le> fst x \<Longrightarrow> 0 \<le> float64_trunc x"
  by (simp add: float64_trunc_def sgn_if pos_imp_zdiv_nonneg_iff)

lemma trunc_le_value:
  assumes "0 \<le> fst x"
  shows "of_int (float64_trunc x) \<le> float64_value x"
proof (cases "0 \<le> snd x")
  case True
  then show ?thesis
    by (simp add: float64_trunc_def float64_value_def power_int_nonneg_exp)
next
  case False
  let ?n = "nat (- snd x)"
  have e: "snd x = - int ?n" using False by simp
  have "float64_trunc x \<le> fst x div 2 ^ ?n"
    using False assms by (simp add: float64_trunc_def sgn_if)
  then have "of_int (float64_trunc x) \<le> (of_int (fst x div 2 ^ ?n) :: real)" by simp
  also have "\<dots> = of_int \<lfloor>(of_int (fst x) :: real) / of_int (2 ^ ?n)\<rfloor>"
    by (simp only: floor_divide_of_int_eq)
  also have "\<dots> \<le> of_int (fst x) / of_int (2 ^ ?n)" by (rule of_int_floor_le)
  also have "\<dots> = of_int (fst x) / 2 ^ ?n" by simp
  also have "\<dots> = float64_value x"
  proof -
    have "(2::real) powi snd x = inverse (2 ^ ?n)"
      unfolding power_int_def using False by (simp add: power_one_over inverse_eq_divide)
    then show ?thesis by (simp only: float64_value_def divide_inverse)
  qed
  finally show ?thesis .
qed

lemma FixedFee_package: "FixedFee packageFees = (0, 0)"
  by (simp add: packageFees_def float64_mul_def round53_def roundShift_def DOT_def)

lemma FeeRate_package: "FeeRate packageFees = (4611686018427388, - 62)"
  by (simp add: packageFees_def)

lemma value_feeFloat_package:
  assumes "0 \<le> x"
  shows "float64_value (feeFloat packageFees x) \<le> of_int x \<and> 0 \<le> fst (feeFloat packageFees x)"
proof -
  let ?M = "4611686018427388 :: int"
  let ?f1 = "float64_of_int x"
  let ?f2 = "float64_mul ?f1 (?M, - 62)"
  have f1: "0 \<le> fst ?f1" using assms by (simp add: float64_of_int_def round53_nonneg)
  have v1: "float64_value ?f1 \<le> 2 * of_int x"
    using value_round53_le [of "(x, 0)"] assms by (simp add: float64_of_int_def float64_value_def)
  have v1n: "0 \<le> float64_value ?f1" using f1 by (simp add: float64_value_def)
  have f2: "0 \<le> fst ?f2" using f1 by (simp add: float64_mul_def round53_nonneg)
  have m2: "?f2 = round53 (fst ?f1 * ?M, snd ?f1 + - 62)" by (simp add: float64_mul_def)
  have "float64_value ?f2 \<le> 2 * float64_value (fst ?f1 * ?M, snd ?f1 + - 62)"
    unfolding m2 using f1 by (intro value_round53_le) simp
  also have "float64_value (fst ?f1 * ?M, snd ?f1 + - 62) =
      float64_value ?f1 * (of_int ?M * 2 powi (- 62))"
  proof -
    have pa: "(2::real) powi (snd ?f1 + - 62) = 2 powi (snd ?f1) * 2 powi (- 62)"
      by (rule power_int_add) simp
    have "float64_value (fst ?f1 * ?M, snd ?f1 + - 62) =
        of_int (fst ?f1 * ?M) * 2 powi (snd ?f1 + - 62)"
      by (simp only: float64_value_def fst_conv snd_conv)
    also have "\<dots> = of_int (fst ?f1) * of_int ?M * (2 powi (snd ?f1) * 2 powi (- 62))"
      by (simp only: pa of_int_mult)
    also have "\<dots> = float64_value ?f1 * (of_int ?M * 2 powi (- 62))"
      by (simp only: float64_value_def mult_ac)
    finally show ?thesis .
  qed
  also have "2 * (float64_value ?f1 * (of_int ?M * 2 powi (- 62))) \<le>
      2 * (float64_value ?f1 * (1 / 8))"
  proof -
    have "(of_int ?M :: real) * 2 powi (- 62) \<le> 1 / 8"
      by (simp add: power_int_minus)
    then show ?thesis using v1n by (intro mult_left_mono) simp_all
  qed
  finally have v2: "float64_value ?f2 \<le> float64_value ?f1 / 4" by simp
  let ?e = "min 0 (snd ?f2)"
  let ?sum = "(0 * 2 ^ nat (0 - ?e) + fst ?f2 * 2 ^ nat (snd ?f2 - ?e), ?e)"
  have fee: "feeFloat packageFees x = round53 ?sum"
    by (simp add: feeFloat_def FixedFee_package FeeRate_package float64_add_def Let_def)
  have s0: "0 \<le> fst ?sum" using f2 by simp
  have "2 ^ nat (snd ?f2 - ?e) * (2::real) powi ?e = 2 powi (snd ?f2)"
    by (cases "snd ?f2 \<le> 0") (simp_all add: min_def power_int_nonneg_exp)
  then have vs: "float64_value ?sum = float64_value ?f2"
    by (simp add: float64_value_def mult.assoc)
  have "float64_value (feeFloat packageFees x) \<le> 2 * float64_value ?sum"
    unfolding fee using s0 by (rule value_round53_le)
  also have "\<dots> \<le> 2 * (float64_value ?f1 / 4)" using v2 vs by simp
  also have "\<dots> \<le> of_int x" using v1 by simp
  finally have "float64_value (feeFloat packageFees x) \<le> of_int x" .
  moreover have "0 \<le> fst (feeFloat packageFees x)"
    unfolding fee using s0 by (rule round53_nonneg)
  ultimately show ?thesis by simp
qed

text \<open>With the package's fee variables the writer's fee never exceeds the amount, so
  no message makes the fee exceed the converted amount unless the variables are changed.\<close>

lemma writerFee_package_le: "uint (writerFee packageFees a) \<le> uint a"
proof -
  let ?t = "float64_trunc (feeFloat packageFees (uint a))"
  have f: "float64_value (feeFloat packageFees (uint a)) \<le> of_int (uint a)"
    and n: "0 \<le> fst (feeFloat packageFees (uint a))"
    using value_feeFloat_package [of "uint a"] by simp_all
  have "(of_int ?t :: real) \<le> of_int (uint a)"
    using trunc_le_value [OF n] f by linarith
  then have le: "?t \<le> uint a" by (simp only: of_int_le_iff)
  have t0: "0 \<le> ?t" using n by (rule trunc_nonneg)
  have "?t < 2 ^ 64" using le uint_bounded [of a] by simp
  then have "?t mod 2 ^ 64 = ?t" using t0 by (intro mod_pos_pos_trivial) simp_all
  then have "uint (word_of_int ?t :: 64 word) = ?t" unfolding uint_word_of_int by simp
  with le show ?thesis by (simp add: writerFee_def)
qed


section \<open>The writer's goroutine\<close>

lemma redeemTx_guard_dead:
  "redeemTx dec fv w m records heights =
     (if length (Payload m) < 1 then Some (Inl IndexOutOfRange)
      else if length (Payload m) < 2 then Some (Inl IndexOutOfRange)
      else roundLoop dec w (Payload m ! 1)
             (word_of_nat (SetBytes (Payload m ! 0) div oneToken) -
              writerFee fv (word_of_nat (SetBytes (Payload m ! 0) div oneToken)))
             records heights)"
  by (simp add: redeemTx_def Let_def)

lemma finishTx_deletes:
  "BlockNumber tx \<noteq> - 1 \<Longrightarrow> MultiSignTxId tx \<noteq> 0 \<Longrightarrow> finishTx tx msTxs tx = None"
  by (simp add: finishTx_def NotExecuted_def)

lemma finishTx_index_zero: "MultiSignTxId tx = 0 \<Longrightarrow> finishTx tx msTxs = msTxs"
  by (simp add: finishTx_def NotExecuted_def)

lemma setBytes_2000000: "SetBytes [CHR 0x1E, CHR 0x84, CHR 0x80] = 2000000"
  by (simp add: SetBytes_def)

lemma setBytes_1000000: "SetBytes [CHR 0x0F, CHR 0x42, CHR 0x40] = 1000000"
  by (simp add: SetBytes_def)

lemma writerFee_2: "writerFee packageFees 2 = 0"
  by (simp add: float_defs)

lemma writerFee_fixed5:
  "writerFee \<lparr>FixedFee = (5, 0), FeeRate = (4611686018427388, - 62)\<rparr> 1 = 5"
  by (simp add: float_defs)

lemma round_102: "getRound 102 3 = Some 0"
  by (simp add: getRound_def Mod_def)

lemma redeemTx_executed_index_zero:
  "redeemTx (\<lambda>s. s) packageFees
     \<lparr>relayer = \<lparr>krAddress = ''0xA'', otherSignatories = [''0xB'', ''0xC''], totalRelayers = 3,
        multiSignThreshold = 2, currentRelayer = 1\<rparr>, maxWeight = 2269800000, submitted = []\<rparr>
     \<lparr>DepositNonce = 1, Payload = [[CHR 0x1E, CHR 0x84, CHR 0x80], ''0xabcd'']\<rparr>
     (recordsOf
        [\<lparr>BlockNumber = 100, MultiSignTxId = 0\<rparr> \<mapsto>
           \<lparr>Executed = True, Threshold = 2, MaybeTimePoint = None, DestAddress = ''abcd'',
            DestAmount = ''2'', Others = [[''0xB'', ''0xC''], [''0xA'', ''0xC'']],
            StoreCall = [], MaxWeight = 0,
            OriginMsTx = \<lparr>BlockNumber = 100, MultiSignTxId = 0\<rparr>\<rparr>]
        [\<lparr>BlockNumber = 100, MultiSignTxId = 0\<rparr>])
     [102] =
   Some (Inr ((True, \<lparr>BlockNumber = 100, MultiSignTxId = 0\<rparr>),
     \<lparr>relayer = \<lparr>krAddress = ''0xA'', otherSignatories = [''0xB'', ''0xC''], totalRelayers = 3,
        multiSignThreshold = 2, currentRelayer = 1\<rparr>, maxWeight = 2269800000,
      submitted = []\<rparr>))"
  by (simp add: redeemTx_guard_dead setBytes_2000000 oneToken_def writerFee_2 round_102
        roundMatches_def Mod_def sendRound_def recordsOf_def List.map_filter_simps
        isFinish_def FormatInt_def digitChar_def)

text \<open>
  Claim C7 at a concrete ledger. The ledger holds one record, executed, whose origin is
  extrinsic 0 of block 100, for destination \<^verbatim>\<open>abcd\<close> and amount 2. The message asks
  for 2000000 units (2 after the division by \<^verbatim>\<open>oneToken\<close>, fee 0) to \<^verbatim>\<open>0xabcd\<close>, and
  the finalized height 102 is the round of relayer 1 of 3. \<^verbatim>\<open>redeemTx\<close> reports the
  record as executed, returning its origin key, and the goroutine ends with the ledger as it
  was: the record is still there, because the test before \<^verbatim>\<open>delete\<close> asks for a
  block number other than -1 and an index other than 0.
\<close>

theorem ResolveMessage_keeps_executed_index_zero:
  "ResolveMessage (\<lambda>s. s) packageFees
     \<lparr>DepositNonce = 1, Payload = [[CHR 0x1E, CHR 0x84, CHR 0x80], ''0xabcd'']\<rparr>
     [([\<lparr>BlockNumber = 100, MultiSignTxId = 0\<rparr> \<mapsto>
          \<lparr>Executed = True, Threshold = 2, MaybeTimePoint = None, DestAddress = ''abcd'',
           DestAmount = ''2'', Others = [[''0xB'', ''0xC''], [''0xA'', ''0xC'']],
           StoreCall = [], MaxWeight = 0,
           OriginMsTx = \<lparr>BlockNumber = 100, MultiSignTxId = 0\<rparr>\<rparr>],
       [\<lparr>BlockNumber = 100, MultiSignTxId = 0\<rparr>], [102])]
     \<lparr>relayer = \<lparr>krAddress = ''0xA'', otherSignatories = [''0xB'', ''0xC''],
        totalRelayers = 3, multiSignThreshold = 2, currentRelayer = 1\<rparr>,
      maxWeight = 2269800000, submitted = []\<rparr> =
   Some (Inr
     (\<lparr>relayer = \<lparr>krAddress = ''0xA'', otherSignatories = [''0xB'', ''0xC''],
         totalRelayers = 3, multiSignThreshold = 2, currentRelayer = 1\<rparr>,
       maxWeight = 2269800000, submitted = []\<rparr>,
      [\<lparr>BlockNumber = 100, MultiSignTxId = 0\<rparr> \<mapsto>
         \<lparr>Executed = True, Threshold = 2, MaybeTimePoint = None, DestAddress = ''abcd'',
          DestAmount = ''2'', Others = [[''0xB'', ''0xC''], [''0xA'', ''0xC'']],
          StoreCall = [], MaxWeight = 0,
          OriginMsTx = \<lparr>BlockNumber = 100, MultiSignTxId = 0\<rparr>\<rparr>]))"
  by (simp add: ResolveMessage_def redeemTx_executed_index_zero finishTx_def NotExecuted_def)

text \<open>
  The fee guard of \<^verbatim>\<open>redeemTx\<close> compares a \<^verbatim>\<open>uint64\<close> with 0 and never fires, whatever
  the fee variables and the message (lemma \<open>redeemTx_guard_dead\<close>). With the values the
  package gives the variables the fee never exceeds the amount (lemma
  \<open>writerFee_package_le\<close>), so no message reaches the case the guard is written for.
  Were \<^verbatim>\<open>FixedFee\<close> set to 5, a message of 1000000 units would convert to the amount 1
  with the fee 5; the actual amount would be the \<^verbatim>\<open>uint64\<close> difference \<open>2 ^ 64 - 4\<close>,
  and in its round the writer would submit a call for that amount and return
  \<open>(false, NotExecuted)\<close>.
\<close>

lemma redeemTx_fee_above_amount_submits:
  "writerFee \<lparr>FixedFee = (5, 0), FeeRate = (4611686018427388, - 62)\<rparr> 1 = 5 \<and>
   redeemTx (\<lambda>s. s) \<lparr>FixedFee = (5, 0), FeeRate = (4611686018427388, - 62)\<rparr>
     \<lparr>relayer = \<lparr>krAddress = ''0xA'', otherSignatories = [''0xB'', ''0xC''], totalRelayers = 3,
        multiSignThreshold = 2, currentRelayer = 1\<rparr>, maxWeight = 2269800000, submitted = []\<rparr>
     \<lparr>DepositNonce = 1, Payload = [[CHR 0x0F, CHR 0x42, CHR 0x40], ''0xabcd'']\<rparr>
     [] [102] =
   Some (Inr ((False, NotExecuted),
     \<lparr>relayer = \<lparr>krAddress = ''0xA'', otherSignatories = [''0xB'', ''0xC''], totalRelayers = 3,
        multiSignThreshold = 2, currentRelayer = 1\<rparr>, maxWeight = 2269800000,
      submitted = [\<lparr>callThreshold = 2, callOtherSignatories = [''0xB'', ''0xC''],
         callMaybeTimePoint = None, callRecipient = ''0xabcd'',
         callAmount = 18446744073709551612, callMaxWeight = 0\<rparr>]\<rparr>))"
  by (simp add: redeemTx_guard_dead setBytes_1000000 oneToken_def writerFee_fixed5 round_102
        roundMatches_def Mod_def sendRound_def)


section \<open>The deposit nonce\<close>

lemma digit_cases: "d < 10 \<Longrightarrow> d \<in> {0, 1, 2, 3, 4, 5, 6, 7, 8, 9 :: nat}"
  by auto

lemma digitVal_digitChar: "d < 10 \<Longrightarrow> digitVal (digitChar d) = Some d"
  by (drule digit_cases) (auto simp: digitVal_def digitChar_def)

lemma digitChar_not_sign:
  "d < 10 \<Longrightarrow> digitChar d \<noteq> CHR ''+'' \<and> digitChar d \<noteq> CHR ''-''"
  by (drule digit_cases) (auto simp: digitChar_def)

text \<open>One turn of the loop of \<^verbatim>\<open>ParseUint\<close> on a digit: the two overflow tests amount
  to one.\<close>

lemma parseUintLoop_digit:
  assumes "d < 10"
  shows "parseUintLoop acc (digitChar d # s) =
           (if acc * 10 + d \<le> maxUint64 then parseUintLoop (acc * 10 + d) s
            else (maxUint64, Some ErrRange))"
proof -
  have "acc * 10 + d \<le> maxUint64 \<Longrightarrow> \<not> maxUint64 div 10 + 1 \<le> acc"
    by (simp add: maxUint64_def)
  then show ?thesis
    by (auto simp: digitVal_digitChar [OF assms])
qed

text \<open>The loop on the digits of \<open>n\<close> shifts the accumulator by their number and adds
  \<open>n\<close>, or stops with a range error when that exceeds \<^verbatim>\<open>maxUint64\<close>.\<close>

lemma parseUintLoop_decimal:
  "parseUintLoop acc (decimal n @ s) =
     (if acc * 10 ^ length (decimal n) + n \<le> maxUint64
      then parseUintLoop (acc * 10 ^ length (decimal n) + n) s
      else (maxUint64, Some ErrRange))"
proof (induction n arbitrary: acc s rule: decimal.induct)
  case (1 n)
  show ?case
  proof (cases "n < 10")
    case True
    then have "decimal n = [digitChar n]" by (subst decimal.simps) simp
    with True show ?thesis by (simp add: parseUintLoop_digit del: parseUintLoop.simps)
  next
    case False
    let ?q = "n div 10" and ?r = "n mod 10"
    let ?k = "length (decimal ?q)"
    have dec: "decimal n = decimal ?q @ [digitChar ?r]"
      using False by (subst decimal.simps) simp
    have r: "?r < 10" by simp
    have n: "n = ?q * 10 + ?r" by simp
    define A where "A = acc * 10 ^ ?k + ?q"
    define B where "B = acc * 10 ^ Suc ?k + n"
    have val: "A * 10 + ?r = B"
      by (simp add: A_def B_def algebra_simps)
    then have mono: "A \<le> B" by linarith
    have step: "parseUintLoop A (digitChar ?r # s) =
                  (if B \<le> maxUint64 then parseUintLoop B s else (maxUint64, Some ErrRange))"
      unfolding parseUintLoop_digit [OF r] val ..
    have "parseUintLoop acc (decimal n @ s) =
            parseUintLoop acc (decimal ?q @ (digitChar ?r # s))"
      by (simp add: dec)
    also have "\<dots> = (if A \<le> maxUint64
                      then parseUintLoop A (digitChar ?r # s)
                      else (maxUint64, Some ErrRange))"
      unfolding A_def using False by (rule "1.IH")
    also have "\<dots> = (if B \<le> maxUint64
                      then parseUintLoop B s
                      else (maxUint64, Some ErrRange))"
      using mono by (simp only: step split: if_splits) auto
    finally have "parseUintLoop acc (decimal n @ s) =
        (if B \<le> maxUint64 then parseUintLoop B s else (maxUint64, Some ErrRange))" .
    then show ?thesis by (simp add: B_def dec)
  qed
qed

lemma decimal_first:
  "\<exists>d rest. d < 10 \<and> decimal n = digitChar d # rest"
proof (induction n rule: decimal.induct)
  case (1 n)
  show ?case
  proof (cases "n < 10")
    case True
    then have "decimal n = [digitChar n]" by (subst decimal.simps) simp
    with True show ?thesis by blast
  next
    case False
    then obtain d rest where "d < 10" "decimal (n div 10) = digitChar d # rest"
      using "1.IH" by blast
    moreover have "decimal n = decimal (n div 10) @ [digitChar (n mod 10)]"
      using False by (subst decimal.simps) simp
    ultimately show ?thesis by auto
  qed
qed

lemma decimal_bound: "n < 10 ^ length (decimal n)"
proof (induction n rule: decimal.induct)
  case (1 n)
  show ?case
  proof (cases "n < 10")
    case True
    then have "decimal n = [digitChar n]" by (subst decimal.simps) simp
    with True show ?thesis by simp
  next
    case False
    have dec: "decimal n = decimal (n div 10) @ [digitChar (n mod 10)]"
      using False by (subst decimal.simps) simp
    have "n div 10 < 10 ^ length (decimal (n div 10))" using False by (rule "1.IH")
    then have "n < 10 * 10 ^ length (decimal (n div 10))" by linarith
    then show ?thesis by (simp add: dec)
  qed
qed

lemma ParseInt_decimals:
  "ParseInt (decimal b @ decimal i) =
     (if b * 10 ^ length (decimal i) + i < 2 ^ 63
      then (int (b * 10 ^ length (decimal i) + i), None)
      else (2 ^ 63 - 1, Some ErrRange))"
proof -
  obtain d rest where d: "d < 10" "decimal b = digitChar d # rest"
    using decimal_first by blast
  let ?v = "b * 10 ^ length (decimal i) + i"
  have b: "b \<le> ?v"
    by (metis le_add1 mult.right_neutral mult_le_mono2 one_le_numeral one_le_power order_trans)
  have "parseUintLoop 0 (decimal b @ decimal i @ []) =
          (if ?v \<le> maxUint64 then (?v, None) else (maxUint64, Some ErrRange))"
    using b by (simp add: parseUintLoop_decimal del: append_Nil2)
  then have u: "ParseUint (decimal b @ decimal i) =
          (if ?v \<le> maxUint64 then (?v, None) else (maxUint64, Some ErrRange))"
    using d by (simp add: ParseUint_def)
  have "ParseInt (digitChar d # rest @ decimal i) =
     (if ?v < 2 ^ 63 then (int ?v, None) else (2 ^ 63 - 1, Some ErrRange))"
    using u digitChar_not_sign [OF d(1)] d(2)
    by (simp add: ParseInt_def maxUint64_def)
  then show ?thesis using d by simp
qed

lemma depositNonce_value:
  assumes "0 \<le> b" "0 \<le> i"
  shows "ParseInt (FormatInt b @ FormatInt i) =
     (if nat b * 10 ^ length (FormatInt i) + nat i < 2 ^ 63
      then (b * 10 ^ length (FormatInt i) + i, None)
      else (2 ^ 63 - 1, Some ErrRange))"
  using assms by (simp add: FormatInt_def ParseInt_decimals)

text \<open>
  Claim C5, as the code has it. The nonce is the decimal digits of the block number
  followed by those of the extrinsic index, parsed as a 64-bit integer. Over pairs of a
  non-negative block number and index whose concatenation parses without error (it fits
  in 63 bits) and whose indices have the same number of decimal digits, distinct pairs
  yield distinct nonces.
\<close>

theorem depositNonce_injective_same_width:
  assumes "0 \<le> b1" "0 \<le> i1" "0 \<le> b2" "0 \<le> i2"
    and "snd (ParseInt (FormatInt b1 @ FormatInt i1)) = None"
    and "snd (ParseInt (FormatInt b2 @ FormatInt i2)) = None"
    and "length (FormatInt i1) = length (FormatInt i2)"
    and "(b1, i1) \<noteq> (b2, i2)"
  shows "depositNonce b1 i1 \<noteq> depositNonce b2 i2"
proof
  assume eq: "depositNonce b1 i1 = depositNonce b2 i2"
  let ?k = "length (FormatInt i2)"
  have v1: "depositNonce b1 i1 = b1 * 10 ^ ?k + i1"
    using assms(1,2,5,7) by (simp add: depositNonce_def depositNonce_value split: if_splits)
  have v2: "depositNonce b2 i2 = b2 * 10 ^ ?k + i2"
    using assms(3,4,6) by (simp add: depositNonce_def depositNonce_value split: if_splits)
  have "nat i1 < 10 ^ length (decimal (nat i1))" by (rule decimal_bound)
  then have i1: "i1 < 10 ^ ?k" using assms(2,7) by (simp add: FormatInt_def nat_less_iff)
  have "nat i2 < 10 ^ length (decimal (nat i2))" by (rule decimal_bound)
  then have i2: "i2 < 10 ^ ?k" using assms(4) by (simp add: FormatInt_def nat_less_iff)
  from eq v1 v2 have e: "b1 * 10 ^ ?k + i1 = b2 * 10 ^ ?k + i2" by simp
  have "(b1 * 10 ^ ?k + i1) div 10 ^ ?k = b1" using assms(2) i1 by simp
  moreover have "(b2 * 10 ^ ?k + i2) div 10 ^ ?k = b2" using assms(4) i2 by simp
  ultimately have "b1 = b2" using e by simp
  with e have "i1 = i2" by simp
  with \<open>b1 = b2\<close> assms(8) show False by simp
qed

theorem depositNonce_injective_same_width_witness:
  "snd (ParseInt (FormatInt 200 @ FormatInt 4)) = None \<and>
   snd (ParseInt (FormatInt 201 @ FormatInt 4)) = None \<and>
   length (FormatInt 4) = length (FormatInt 4) \<and>
   depositNonce 200 4 \<noteq> depositNonce 201 4"
  using depositNonce_injective_same_width [of 200 4 201 4]
  by (simp add: parse_defs)

text \<open>
  Without the condition on the digits of the index the nonce is not injective: block 1,
  index 23 and block 12, index 3 both give 123, and both parse without error.
\<close>

theorem depositNonce_collision_counterexample:
  "depositNonce 1 23 = 123 \<and> depositNonce 12 3 = 123 \<and>
   snd (ParseInt (FormatInt 1 @ FormatInt 23)) = None \<and>
   snd (ParseInt (FormatInt 12 @ FormatInt 3)) = None"
  by (simp add: parse_defs)


end
